theory Spec2Isabelle
  imports Main "HOL-Library.Sublist"
begin

section \<open>Values, errors and the environment\<close>

text \<open>
  Both clients are thin wrappers around an HTTP session. Everything they touch outside
  their own arguments is made explicit here: parsed JSON values, Python exceptions as
  values of \<open>error\<close>, and a \<open>world\<close> holding the wall clock, the local file system, the
  table of file handles, the list of HTTP requests that reached the network, the sleeps
  taken, the lines printed and the files written. The clock counts nanoseconds; the
  time limit and the polling interval of \<open>get_result\<close> are given in seconds.
\<close>

datatype json =
    JNull
  | JBool bool
  | JInt int
  | JFloat int int
  | JStr string
  | JArr "json list"
  | JObj "(string \<times> json) list"

text \<open>\<open>JFloat m e\<close> is the finite double \<open>m * 2 ^ e\<close>. A \<open>JObj\<close> lists the items of the
  parsed dict; a key is looked up with \<open>map_of\<close>.\<close>

datatype http_method = GET | POST | PUT | DELETE

text \<open>What \<open>requests\<close> hands back for one call: the status code, the raw text and the
  parsed body (\<open>None\<close> when the text is not JSON).\<close>

record response =
  status_code :: nat
  text_of :: string
  body :: "json option"

datatype error =
    FileNotFoundError string
  | IsADirectoryError string
  | NotADirectoryError string
  | PermissionError string
  | OSError string
  | OverflowError string
  | UnicodeEncodeError string
  | ValueError string
  | KeyError string
  | TypeError string
  | AttributeError string
  | TimeoutError string
  | HTTPError response
  | TransportError string
  | JSONDecodeError

text \<open>One multipart part: form field, file name, file handle.\<close>

type_synonym handle = nat
type_synonym part = "string \<times> string \<times> handle"

record request =
  meth :: http_method
  url :: string
  payload :: "json option"
  params :: "(string \<times> json) list"
  form :: "(string \<times> string) list"
  files :: "part list"
  req_headers :: "(string \<times> string) list option"
  req_timeout :: int

definition mk_request :: "http_method \<Rightarrow> string \<Rightarrow> int \<Rightarrow> request" where
  "mk_request m u t =
     \<lparr>meth = m, url = u, payload = None, params = [], form = [], files = [],
      req_headers = None, req_timeout = t\<rparr>"

text \<open>The remote service together with the retrying transport below the session: the
  \<open>n\<close>-th request gets a reply after \<open>latency\<close> nanoseconds, which is either the
  message of a transport failure (connection refused, retries exhausted, request timeout)
  or a response. The latency stands for all the time that passes between two readings of
  the clock apart from sleeping: sending, waiting, parsing and the client's own steps.\<close>

record reply =
  latency :: int
  outcome :: "string + response"

type_synonym server = "nat \<Rightarrow> request \<Rightarrow> reply"

text \<open>The file system says for every path either why nothing is found there or what is
  there. A path that is not there: the name is free in an existing directory
  (\<open>NoEntry\<close>), a directory on the way is missing (\<open>NoParent\<close>), the name is free but
  its directory cannot be written (\<open>ReadOnlyParent\<close>), a component of the path is a regular
  file (\<open>NotADirectory\<close>), the name is too long, a directory on the way denies access,
  the path holds a null byte, or the lookup fails for another reason given by its message.
  What is there: a regular file, a directory, a file that can be read but not written, a
  file that this process may not open, or something that cannot be opened for another
  reason.\<close>

datatype gap =
    NoEntry
  | NoParent
  | ReadOnlyParent
  | NotADirectory
  | NameTooLong
  | NoAccess
  | NulByte
  | OtherGap string

datatype node =
    RegularFile
  | Directory
  | ReadOnlyFile
  | Locked
  | OtherNode string

text \<open>A handle is an index into \<open>handles\<close>, where \<open>True\<close> means open. \<open>sleep_limit\<close> is the
  longest interval in seconds that \<open>time.sleep\<close> accepts on this platform, and
  \<open>oversleep n\<close> is the time in nanoseconds by which the \<open>n\<close>-th sleep lasts longer than
  asked. \<open>write_fault p s\<close> is the exception that writing the text \<open>s\<close> to \<open>p\<close> raises, if
  any (text that cannot be encoded, no space left).\<close>

record world =
  clock :: int
  fs :: "string \<Rightarrow> gap + node"
  handles :: "bool list"
  net :: "request list"
  slept :: "int list"
  stdout :: "string list"
  written :: "(string \<times> string) list"
  sleep_limit :: int
  oversleep :: "nat \<Rightarrow> nat"
  write_fault :: "string \<Rightarrow> string \<Rightarrow> error option"

type_synonym 'a io = "world \<Rightarrow> (error + 'a) \<times> world"

definition return_io :: "'a \<Rightarrow> 'a io" where
  "return_io x w = (Inr x, w)"


definition bind_io :: "'a io \<Rightarrow> ('a \<Rightarrow> 'b io) \<Rightarrow> 'b io" where
  "bind_io m f w = (case m w of (Inl e, w') \<Rightarrow> (Inl e, w') | (Inr x, w') \<Rightarrow> f x w')"

definition lift_io :: "error + 'a \<Rightarrow> 'a io" where
  "lift_io r w = (r, w)"

section \<open>Python and library primitives\<close>

text \<open>\<open>s.rstrip(c)\<close> for a single character \<open>c\<close>.\<close>

definition rstrip :: "char \<Rightarrow> string \<Rightarrow> string" where
  "rstrip c s = rev (dropWhile (\<lambda>x. x = c) (rev s))"

text \<open>\<open>os.path.basename\<close>: everything after the last slash.\<close>

definition basename :: "string \<Rightarrow> string" where
  "basename p = rev (takeWhile (\<lambda>x. x \<noteq> CHR ''/'') (rev p))"

text \<open>\<open>d[k]\<close> on a parsed JSON value: only a dict can be indexed by a string, and a
  missing key raises \<open>KeyError\<close>.\<close>

fun subscript :: "json \<Rightarrow> string \<Rightarrow> error + json" where
  "subscript (JObj kvs) k =
     (case map_of kvs k of None \<Rightarrow> Inl (KeyError k) | Some v \<Rightarrow> Inr v)"
| "subscript (JArr xs) k = Inl (TypeError ''list indices must be integers or slices, not str'')"
| "subscript (JStr s) k = Inl (TypeError ''string indices must be integers, not str'')"
| "subscript v k = Inl (TypeError ''object is not subscriptable'')"

text \<open>Truth value of a parsed JSON value in a condition (\<open>if v:\<close>, \<open>v or d\<close>).\<close>

fun truthy :: "json \<Rightarrow> bool" where
  "truthy JNull = False"
| "truthy (JBool b) = b"
| "truthy (JInt n) = (n \<noteq> 0)"
| "truthy (JFloat m e) = (m \<noteq> 0)"
| "truthy (JStr s) = (s \<noteq> [])"
| "truthy (JArr xs) = (xs \<noteq> [])"
| "truthy (JObj kvs) = (kvs \<noteq> [])"

text \<open>Rendering that the clients leave to the Python runtime and its libraries:
  \<open>json.dumps(v)\<close>, \<open>json.dumps(v, indent=2, ensure_ascii=False)\<close>, \<open>str(v)\<close> of a parsed
  value that is not a string, and \<open>str(e)\<close> of an exception.\<close>

record runtime =
  dumps :: "json \<Rightarrow> string"
  dumps_indent :: "json \<Rightarrow> string"
  repr :: "json \<Rightarrow> string"
  describe :: "error \<Rightarrow> string"

text \<open>A value inside an f-string: a string is inserted as it is.\<close>

definition py_str :: "runtime \<Rightarrow> json \<Rightarrow> string" where
  "py_str rt v = (case v of JStr s \<Rightarrow> s | _ \<Rightarrow> repr rt v)"

text \<open>\<open>os.path.exists(p)\<close> is false whenever the lookup of \<open>p\<close> fails.\<close>

definition os_path_exists :: "string \<Rightarrow> world \<Rightarrow> bool" where
  "os_path_exists p w = (case fs w p of Inl g \<Rightarrow> False | Inr n \<Rightarrow> True)"

text \<open>The exception that \<open>open\<close> raises for a path that is not there, in either mode
  (writing differs for \<open>NoEntry\<close> and \<open>ReadOnlyParent\<close>, see \<open>open_write_error\<close>).\<close>

fun gap_error :: "gap \<Rightarrow> string \<Rightarrow> error" where
  "gap_error NoEntry p = FileNotFoundError p"
| "gap_error NoParent p = FileNotFoundError p"
| "gap_error ReadOnlyParent p = FileNotFoundError p"
| "gap_error NotADirectory p = NotADirectoryError p"
| "gap_error NameTooLong p = OSError ''File name too long''"
| "gap_error NoAccess p = PermissionError p"
| "gap_error NulByte p = ValueError ''embedded null byte''"
| "gap_error (OtherGap m) p = OSError m"

text \<open>The exception that \<open>open(p, 'rb')\<close> raises, if any.\<close>

definition open_read_error :: "world \<Rightarrow> string \<Rightarrow> error option" where
  "open_read_error w p =
     (case fs w p of
        Inl g \<Rightarrow> Some (gap_error g p)
      | Inr RegularFile \<Rightarrow> None
      | Inr ReadOnlyFile \<Rightarrow> None
      | Inr Directory \<Rightarrow> Some (IsADirectoryError p)
      | Inr Locked \<Rightarrow> Some (PermissionError p)
      | Inr (OtherNode m) \<Rightarrow> Some (OSError m))"

text \<open>\<open>open(p, 'rb')\<close>: the exception, or a fresh handle, open, at the end of the
  handle table.\<close>

definition py_open :: "string \<Rightarrow> handle io" where
  "py_open p w =
     (case open_read_error w p of
        Some e \<Rightarrow> (Inl e, w)
      | None \<Rightarrow> (Inr (length (handles w)), w\<lparr>handles := handles w @ [True]\<rparr>))"

definition py_close :: "handle \<Rightarrow> world \<Rightarrow> world" where
  "py_close h w = w\<lparr>handles := (handles w)[h := False]\<rparr>"

definition is_open :: "world \<Rightarrow> handle \<Rightarrow> bool" where
  "is_open w h = (h < length (handles w) \<and> handles w ! h)"

definition ticks_per_second :: int where
  "ticks_per_second = 1000000000"

text \<open>\<open>time.sleep(d)\<close> for \<open>d\<close> seconds. A negative length raises \<open>ValueError\<close>. A length
  whose nanoseconds do not fit 63 bits (above 9223372036 seconds) raises \<open>OverflowError\<close>,
  and a shorter one that the platform still refuses raises \<open>OSError\<close>. Otherwise the call
  sleeps for at least \<open>d\<close> seconds.\<close>

definition time_sleep :: "int \<Rightarrow> unit io" where
  "time_sleep d w =
     (if d < 0 then (Inl (ValueError ''sleep length must be non-negative''), w)
      else if 9223372036 < d
      then (Inl (OverflowError ''timestamp too large to convert to C _PyTime_t''), w)
      else if sleep_limit w < d then (Inl (OSError ''[Errno 22] Invalid argument''), w)
      else (Inr (), w\<lparr>clock := clock w + d * ticks_per_second
                                   + int (oversleep w (length (slept w))),
                         slept := slept w @ [d]\<rparr>))"

text \<open>\<open>print(s)\<close>: \<open>stdout\<close> holds one entry for each call.\<close>

definition print :: "string \<Rightarrow> unit io" where
  "print s w = (Inr (), w\<lparr>stdout := stdout w @ [s]\<rparr>)"

text \<open>One call through the session. A multipart body is read while the request is
  prepared, so a part whose handle is already closed raises \<open>ValueError\<close> before anything
  is sent. Otherwise the request goes out, the clock advances by the latency of the reply
  and the session returns the response or raises.\<close>

definition session_request :: "server \<Rightarrow> request \<Rightarrow> response io" where
  "session_request srv rq w =
     (if list_ex (\<lambda>(field, name, h). \<not> is_open w h) (files rq)
      then (Inl (ValueError ''read of closed file''), w)
      else (let rp = srv (length (net w)) rq
            in (case outcome rp of Inl msg \<Rightarrow> Inl (TransportError msg) | Inr resp \<Rightarrow> Inr resp,
                w\<lparr>clock := clock w + latency rp, net := net w @ [rq]\<rparr>)))"

text \<open>\<open>response.raise_for_status()\<close>: 4xx and 5xx raise \<open>HTTPError\<close>.\<close>

definition raise_for_status :: "response \<Rightarrow> error + unit" where
  "raise_for_status r =
     (if 400 \<le> status_code r \<and> status_code r < 600 then Inl (HTTPError r) else Inr ())"

text \<open>\<open>response.json()\<close>.\<close>

definition response_json :: "response \<Rightarrow> error + json" where
  "response_json r = (case body r of None \<Rightarrow> Inl JSONDecodeError | Some v \<Rightarrow> Inr v)"

text \<open>The three lines every wrapper ends with: issue the call, \<open>raise_for_status\<close>,
  \<open>return response.json()\<close>.\<close>

definition call_json :: "server \<Rightarrow> request \<Rightarrow> json io" where
  "call_json srv rq =
     bind_io (session_request srv rq) (\<lambda>resp.
     bind_io (lift_io (raise_for_status resp)) (\<lambda>_.
     lift_io (response_json resp)))"

section \<open>Sessions and clients\<close>

record retry_strategy =
  total :: int
  backoff_factor :: int
  status_forcelist :: "nat list"
  allowed_methods :: "string list"

record session =
  headers :: "(string \<times> string) list"
  retry :: retry_strategy

record http_client =
  base_url :: string
  timeout :: int
  session_of :: session

subsection \<open>MinRueClient\<close>

definition minrue_create_session :: "int \<Rightarrow> session" where
  "minrue_create_session retries =
     \<lparr>headers = [],
      retry = \<lparr>total = retries, backoff_factor = 1,
               status_forcelist = [429, 500, 502, 503, 504],
               allowed_methods = [''HEAD'', ''GET'', ''POST'', ''PUT'', ''DELETE'',
                                  ''OPTIONS'', ''TRACE'']\<rparr>\<rparr>"

definition MinRueClient :: "string \<Rightarrow> int \<Rightarrow> int \<Rightarrow> http_client" where
  "MinRueClient b t retries =
     \<lparr>base_url = rstrip CHR ''/'' b, timeout = t,
      session_of = minrue_create_session retries\<rparr>"

text \<open>Each method first builds its \<open>url\<close> with an f-string over \<open>self.base_url\<close>; the
  definitions named \<open>_url\<close> are these local variables.\<close>

definition get_health_url :: "http_client \<Rightarrow> string" where
  "get_health_url c = base_url c @ ''/health''"


definition list_models_url :: "http_client \<Rightarrow> string" where
  "list_models_url c = base_url c @ ''/models''"


definition list_tasks_url :: "http_client \<Rightarrow> string" where
  "list_tasks_url c = base_url c @ ''/tasks''"


definition process_file_url :: "http_client \<Rightarrow> string" where
  "process_file_url c = base_url c @ ''/process''"

text \<open>\<open>process_file\<close>. The \<open>with\<close> block holds only the line that builds \<open>files\<close>, so the
  handle is closed when the block ends, before the request is posted.
  \<open>parameters or {}\<close> replaces \<open>None\<close> and every falsy value by \<open>{}\<close>.\<close>

definition process_file ::
  "runtime \<Rightarrow> server \<Rightarrow> http_client \<Rightarrow> string \<Rightarrow> string \<Rightarrow> string \<Rightarrow> json option
     \<Rightarrow> json io" where
  "process_file rt srv c file_path model task parameters w =
     (if \<not> os_path_exists file_path w
      then (Inl (FileNotFoundError (''File not found: '' @ file_path)), w)
      else
        bind_io (py_open file_path) (\<lambda>f w1.
          (let fls = [(''file'', basename file_path, f)];
               w2 = py_close f w1;
               dat = [(''model'', model), (''task'', task),
                      (''parameters'',
                         dumps rt (case parameters of None \<Rightarrow> JObj []
                                   | Some p \<Rightarrow> if truthy p then p else JObj []))]
           in call_json srv
                ((mk_request POST (process_file_url c) (timeout c))
                   \<lparr>files := fls, form := dat\<rparr>) w2)) w)"

text \<open>\<open>get_result\<close>. The \<open>while True\<close> loop has no bound of its own, so the loop is a
  partial function: \<open>None\<close> means that it never returns. \<open>start\<close> is the clock reading
  taken before the first fetch; \<open>time.time() - start_time\<close> is in seconds, so the time
  limit is compared in nanoseconds.\<close>

definition get_result_url :: "http_client \<Rightarrow> string \<Rightarrow> string" where
  "get_result_url c job_id = base_url c @ ''/results/'' @ job_id"

partial_function (option) get_result_loop ::
  "server \<Rightarrow> request \<Rightarrow> bool \<Rightarrow> int \<Rightarrow> int \<Rightarrow> int \<Rightarrow> world \<Rightarrow> ((error + json) \<times> world) option"
where
  "get_result_loop srv rq wait tmo polling_interval start w =
     (case call_json srv rq w of
        (Inl e, w1) \<Rightarrow> Some (Inl e, w1)
      | (Inr result, w1) \<Rightarrow>
          (case subscript result ''status'' of
             Inl e \<Rightarrow> Some (Inl e, w1)
           | Inr st \<Rightarrow>
               if st = JStr ''completed'' \<or> st = JStr ''failed'' \<or> \<not> wait
               then Some (Inr result, w1)
               else if clock w1 - start > tmo * ticks_per_second
               then Some (Inl (TimeoutError ''Result retrieval timed out''), w1)
               else (case time_sleep polling_interval w1 of
                       (Inl e, w2) \<Rightarrow> Some (Inl e, w2)
                     | (Inr u, w2) \<Rightarrow>
                         get_result_loop srv rq wait tmo polling_interval start w2)))"

declare get_result_loop.simps [code]

text \<open>The call \<open>self.session.get(url, timeout=self.timeout)\<close> of the loop.\<close>

definition get_result_request :: "http_client \<Rightarrow> string \<Rightarrow> request" where
  "get_result_request c job_id = mk_request GET (get_result_url c job_id) (timeout c)"

definition get_result ::
  "server \<Rightarrow> http_client \<Rightarrow> string \<Rightarrow> bool \<Rightarrow> int \<Rightarrow> int \<Rightarrow> world
     \<Rightarrow> ((error + json) \<times> world) option" where
  "get_result srv c job_id wait tmo polling_interval w =
     get_result_loop srv (get_result_request c job_id) wait tmo polling_interval (clock w) w"

subsection \<open>RagflowClient\<close>

record ragflow_client = http_client +
  api_key :: string

text \<open>The headers are those the client sets itself on the session.\<close>

definition ragflow_create_session :: "string \<Rightarrow> int \<Rightarrow> session" where
  "ragflow_create_session key retries =
     \<lparr>headers = [(''Authorization'', ''Bearer '' @ key),
                 (''Content-Type'', ''application/json'')],
      retry = \<lparr>total = retries, backoff_factor = 1,
               status_forcelist = [429, 500, 502, 503, 504],
               allowed_methods = [''HEAD'', ''GET'', ''POST'', ''PUT'', ''DELETE'',
                                  ''OPTIONS'', ''TRACE'']\<rparr>\<rparr>"

definition RagflowClient :: "string \<Rightarrow> string \<Rightarrow> int \<Rightarrow> int \<Rightarrow> ragflow_client" where
  "RagflowClient key b t retries =
     \<lparr>base_url = rstrip CHR ''/'' b, timeout = t,
      session_of = ragflow_create_session key retries, api_key = key\<rparr>"

definition create_chat_completion_url :: "ragflow_client \<Rightarrow> string \<Rightarrow> string" where
  "create_chat_completion_url c chat_id = base_url c @ ''/chats_openai/'' @ chat_id @ ''/chat/completions''"

definition create_chat_completion ::
  "server \<Rightarrow> ragflow_client \<Rightarrow> string \<Rightarrow> json \<Rightarrow> bool \<Rightarrow> bool \<Rightarrow> json \<Rightarrow> json io" where
  "create_chat_completion srv c chat_id messages stream reference metadata_condition =
     call_json srv
       ((mk_request POST (create_chat_completion_url c chat_id) (timeout c))
          \<lparr>payload := Some (JObj [(''model'', JStr ''model''), (''messages'', messages),
                                   (''stream'', JBool stream),
                                   (''extra_body'',
                                      JObj [(''reference'', JBool reference),
                                            (''metadata_condition'', metadata_condition)])])\<rparr>)"

definition create_agent_completion_url :: "ragflow_client \<Rightarrow> string \<Rightarrow> string" where
  "create_agent_completion_url c agent_id = base_url c @ ''/agents_openai/'' @ agent_id @ ''/chat/completions''"

definition create_agent_completion ::
  "server \<Rightarrow> ragflow_client \<Rightarrow> string \<Rightarrow> json \<Rightarrow> bool \<Rightarrow> string option \<Rightarrow> json io" where
  "create_agent_completion srv c agent_id messages stream session_id =
     call_json srv
       ((mk_request POST (create_agent_completion_url c agent_id) (timeout c))
          \<lparr>payload := Some (JObj ([(''model'', JStr ''model''), (''messages'', messages),
                                    (''stream'', JBool stream)]
                                   @ (case session_id of
                                        None \<Rightarrow> []
                                      | Some sid \<Rightarrow>
                                          if sid \<noteq> [] then [(''session_id'', JStr sid)]
                                          else [])))\<rparr>)"

definition create_dataset_url :: "ragflow_client \<Rightarrow> string" where
  "create_dataset_url c = base_url c @ ''/datasets''"

definition create_dataset ::
  "server \<Rightarrow> ragflow_client \<Rightarrow> string \<Rightarrow> string \<Rightarrow> string \<Rightarrow> string \<Rightarrow> json \<Rightarrow> json io" where
  "create_dataset srv c name embedding_model permission chunk_method parser_config =
     call_json srv
       ((mk_request POST (create_dataset_url c) (timeout c))
          \<lparr>payload := Some (JObj ([(''name'', JStr name),
                                    (''embedding_model'', JStr embedding_model),
                                    (''permission'', JStr permission),
                                    (''chunk_method'', JStr chunk_method)]
                                   @ (if truthy parser_config
                                      then [(''parser_config'', parser_config)] else [])))\<rparr>)"

definition list_datasets_url :: "ragflow_client \<Rightarrow> string" where
  "list_datasets_url c = base_url c @ ''/datasets''"

definition list_datasets ::
  "server \<Rightarrow> ragflow_client \<Rightarrow> int \<Rightarrow> int \<Rightarrow> string \<Rightarrow> bool \<Rightarrow> string option \<Rightarrow> string option
     \<Rightarrow> json io" where
  "list_datasets srv c page page_size orderby desc name ident =
     call_json srv
       ((mk_request GET (list_datasets_url c) (timeout c))
          \<lparr>params := [(''page'', JInt page), (''page_size'', JInt page_size),
                      (''orderby'', JStr orderby), (''desc'', JBool desc)]
                     @ (case name of None \<Rightarrow> []
                        | Some n \<Rightarrow> if n \<noteq> [] then [(''name'', JStr n)] else [])
                     @ (case ident of None \<Rightarrow> []
                        | Some i \<Rightarrow> if i \<noteq> [] then [(''id'', JStr i)] else [])\<rparr>)"

definition update_dataset_url :: "ragflow_client \<Rightarrow> string \<Rightarrow> string" where
  "update_dataset_url c dataset_id = base_url c @ ''/datasets/'' @ dataset_id"

definition update_dataset :: "server \<Rightarrow> ragflow_client \<Rightarrow> string \<Rightarrow> json \<Rightarrow> json io" where
  "update_dataset srv c dataset_id updates =
     call_json srv
       ((mk_request PUT (update_dataset_url c dataset_id) (timeout c))
          \<lparr>payload := Some updates\<rparr>)"

definition delete_datasets_url :: "ragflow_client \<Rightarrow> string" where
  "delete_datasets_url c = base_url c @ ''/datasets''"

definition delete_datasets :: "server \<Rightarrow> ragflow_client \<Rightarrow> string list \<Rightarrow> json io" where
  "delete_datasets srv c dataset_ids =
     call_json srv
       ((mk_request DELETE (delete_datasets_url c) (timeout c))
          \<lparr>payload := Some (JObj [(''ids'', JArr (map JStr dataset_ids))])\<rparr>)"

text \<open>The loop of \<open>upload_documents\<close> that opens the files, in list order; the first
  \<open>open\<close> that raises ends it, and the handles opened before stay as they are.\<close>

fun open_all :: "string list \<Rightarrow> part list \<Rightarrow> part list io" where
  "open_all [] acc w = (Inr acc, w)"
| "open_all (file_path # rest) acc w =
     (case py_open file_path w of
        (Inl e, w') \<Rightarrow> (Inl e, w')
      | (Inr f, w') \<Rightarrow> open_all rest (acc @ [(''file'', basename file_path, f)]) w')"

text \<open>The closing loop is \<open>for _, file_obj in files: file_obj.close()\<close>. An element of
  \<open>files\<close> is \<open>("file", (name, handle))\<close>, so \<open>file_obj\<close> is bound to the pair
  \<open>(name, handle)\<close>, and a tuple has no \<open>close\<close>: the first round raises
  \<open>AttributeError\<close> and no handle is closed.\<close>

fun close_all :: "part list \<Rightarrow> unit io" where
  "close_all [] w = (Inr (), w)"
| "close_all ((field, file_obj) # rest) w =
     (Inl (AttributeError ([CHR 0x27] @ ''tuple'' @ [CHR 0x27] @ '' object has no attribute ''
            @ [CHR 0x27] @ ''close'' @ [CHR 0x27])), w)"

definition upload_documents_url :: "ragflow_client \<Rightarrow> string \<Rightarrow> string" where
  "upload_documents_url c dataset_id = base_url c @ ''/datasets/'' @ dataset_id @ ''/documents''"

definition upload_documents ::
  "server \<Rightarrow> ragflow_client \<Rightarrow> string \<Rightarrow> string list \<Rightarrow> json io" where
  "upload_documents srv c dataset_id file_paths =
     bind_io (open_all file_paths []) (\<lambda>fls.
       (let hdrs = filter (\<lambda>(k, v). k \<noteq> ''Content-Type'') (headers (session_of c))
        in bind_io (session_request srv
                      ((mk_request POST (upload_documents_url c dataset_id) (timeout c))
                         \<lparr>files := fls, req_headers := Some hdrs\<rparr>)) (\<lambda>resp.
           bind_io (lift_io (raise_for_status resp)) (\<lambda>_.
           bind_io (close_all fls) (\<lambda>_.
           lift_io (response_json resp))))))"

definition update_document_url :: "ragflow_client \<Rightarrow> string \<Rightarrow> string \<Rightarrow> string" where
  "update_document_url c dataset_id document_id = base_url c @ ''/datasets/'' @ dataset_id @ ''/documents/'' @ document_id"

definition update_document ::
  "server \<Rightarrow> ragflow_client \<Rightarrow> string \<Rightarrow> string \<Rightarrow> json \<Rightarrow> json io" where
  "update_document srv c dataset_id document_id updates =
     call_json srv
       ((mk_request PUT (update_document_url c dataset_id document_id) (timeout c))
          \<lparr>payload := Some updates\<rparr>)"

definition construct_knowledge_graph_url :: "ragflow_client \<Rightarrow> string \<Rightarrow> string" where
  "construct_knowledge_graph_url c dataset_id =
     base_url c @ ''/datasets/'' @ dataset_id @ ''/run_graphrag''"

definition construct_knowledge_graph :: "server \<Rightarrow> ragflow_client \<Rightarrow> string \<Rightarrow> json io" where
  "construct_knowledge_graph srv c dataset_id =
     call_json srv (mk_request POST (construct_knowledge_graph_url c dataset_id) (timeout c))"

definition get_knowledge_graph_url :: "ragflow_client \<Rightarrow> string \<Rightarrow> string" where
  "get_knowledge_graph_url c dataset_id =
     base_url c @ ''/datasets/'' @ dataset_id @ ''/knowledge_graph''"

definition get_knowledge_graph :: "server \<Rightarrow> ragflow_client \<Rightarrow> string \<Rightarrow> json io" where
  "get_knowledge_graph srv c dataset_id =
     call_json srv (mk_request GET (get_knowledge_graph_url c dataset_id) (timeout c))"

definition get_graphrag_status_url :: "ragflow_client \<Rightarrow> string \<Rightarrow> string" where
  "get_graphrag_status_url c dataset_id =
     base_url c @ ''/datasets/'' @ dataset_id @ ''/trace_graphrag''"

definition get_graphrag_status :: "server \<Rightarrow> ragflow_client \<Rightarrow> string \<Rightarrow> json io" where
  "get_graphrag_status srv c dataset_id =
     call_json srv (mk_request GET (get_graphrag_status_url c dataset_id) (timeout c))"

definition delete_knowledge_graph_url :: "ragflow_client \<Rightarrow> string \<Rightarrow> string" where
  "delete_knowledge_graph_url c dataset_id =
     base_url c @ ''/datasets/'' @ dataset_id @ ''/knowledge_graph''"

definition delete_knowledge_graph :: "server \<Rightarrow> ragflow_client \<Rightarrow> string \<Rightarrow> json io" where
  "delete_knowledge_graph srv c dataset_id =
     call_json srv (mk_request DELETE (delete_knowledge_graph_url c dataset_id) (timeout c))"

definition construct_raptor_url :: "ragflow_client \<Rightarrow> string \<Rightarrow> string" where
  "construct_raptor_url c dataset_id =
     base_url c @ ''/datasets/'' @ dataset_id @ ''/run_raptor''"

definition construct_raptor :: "server \<Rightarrow> ragflow_client \<Rightarrow> string \<Rightarrow> json io" where
  "construct_raptor srv c dataset_id =
     call_json srv (mk_request POST (construct_raptor_url c dataset_id) (timeout c))"

definition get_raptor_status_url :: "ragflow_client \<Rightarrow> string \<Rightarrow> string" where
  "get_raptor_status_url c dataset_id =
     base_url c @ ''/datasets/'' @ dataset_id @ ''/trace_raptor''"

definition get_raptor_status :: "server \<Rightarrow> ragflow_client \<Rightarrow> string \<Rightarrow> json io" where
  "get_raptor_status srv c dataset_id =
     call_json srv (mk_request GET (get_raptor_status_url c dataset_id) (timeout c))"

section \<open>Command-line adapters\<close>

text \<open>More of Python: iteration and \<open>len\<close> over a parsed value, decimal numerals,
  \<open>open(p, 'w')\<close> and \<open>f.write\<close>.\<close>

fun py_iter :: "json \<Rightarrow> error + json list" where
  "py_iter (JArr xs) = Inr xs"
| "py_iter (JObj kvs) = Inr (map (\<lambda>(k, v). JStr k) kvs)"
| "py_iter (JStr s) = Inr (map (\<lambda>ch. JStr [ch]) s)"
| "py_iter v = Inl (TypeError ''object is not iterable'')"

fun py_len :: "json \<Rightarrow> error + nat" where
  "py_len (JArr xs) = Inr (length xs)"
| "py_len (JObj kvs) = Inr (length kvs)"
| "py_len (JStr s) = Inr (length s)"
| "py_len v = Inl (TypeError ''object has no len()'')"

definition digit_char :: "nat \<Rightarrow> char" where
  "digit_char d = char_of (d + 48)"

fun string_of_nat :: "nat \<Rightarrow> string" where
  "string_of_nat n =
     (let last_digit = [digit_char (n mod 10)]
      in if 10 \<le> n then string_of_nat (n div 10) @ last_digit else last_digit)"

text \<open>The exception that \<open>open(p, 'w')\<close> raises, if any: a free name in a writable
  directory is created, a regular file is truncated.\<close>

definition open_write_error :: "world \<Rightarrow> string \<Rightarrow> error option" where
  "open_write_error w p =
     (case fs w p of
        Inl NoEntry \<Rightarrow> None
      | Inl ReadOnlyParent \<Rightarrow> Some (PermissionError p)
      | Inl g \<Rightarrow> Some (gap_error g p)
      | Inr RegularFile \<Rightarrow> None
      | Inr ReadOnlyFile \<Rightarrow> Some (PermissionError p)
      | Inr Directory \<Rightarrow> Some (IsADirectoryError p)
      | Inr Locked \<Rightarrow> Some (PermissionError p)
      | Inr (OtherNode m) \<Rightarrow> Some (OSError m))"





subsection \<open>MinRueCLI\<close>













subsection \<open>RagflowCLI\<close>

datatype ragflow_command =
    ChatCompletion string string bool bool
  | DatasetCreate string string
  | DatasetList int int
  | DatasetDelete "string list"
  | DocumentUpload string "string list"

fun print_datasets :: "runtime \<Rightarrow> json list \<Rightarrow> unit io" where
  "print_datasets rt [] = return_io ()"
| "print_datasets rt (dataset # rest) =
     bind_io (lift_io (subscript dataset ''name'')) (\<lambda>name.
     bind_io (lift_io (subscript dataset ''id'')) (\<lambda>ident.
     bind_io (lift_io (subscript dataset ''document_count'')) (\<lambda>cnt.
     bind_io (print (''- '' @ py_str rt name @ '' (ID: '' @ py_str rt ident @ '') - ''
                     @ py_str rt cnt @ '' documents'')) (\<lambda>_.
     print_datasets rt rest))))"

fun print_documents :: "runtime \<Rightarrow> json list \<Rightarrow> unit io" where
  "print_documents rt [] = return_io ()"
| "print_documents rt (doc # rest) =
     bind_io (lift_io (subscript doc ''name'')) (\<lambda>name.
     bind_io (lift_io (subscript doc ''id'')) (\<lambda>ident.
     bind_io (print (''- '' @ py_str rt name @ '' (ID: '' @ py_str rt ident @ '')'')) (\<lambda>_.
     print_documents rt rest)))"

text \<open>\<open>RagflowCLI.run\<close> after \<open>parse_args\<close>; it returns 0 whenever nothing raises.\<close>

definition run :: "runtime \<Rightarrow> server \<Rightarrow> string \<Rightarrow> string \<Rightarrow> ragflow_command \<Rightarrow> int io" where
  "run rt srv key b cmd =
     (let client = RagflowClient key b 30 3
      in case cmd of
           ChatCompletion chat_id message stream no_reference \<Rightarrow>
             bind_io (create_chat_completion srv client chat_id
                        (JArr [JObj [(''role'', JStr ''user''), (''content'', JStr message)]])
                        stream (\<not> no_reference) JNull) (\<lambda>result.
             bind_io (if stream
                      then bind_io (print ''Streaming response...'') (\<lambda>_.
                           print (py_str rt result))
                      else print (dumps_indent rt result)) (\<lambda>_.
             return_io 0))
         | DatasetCreate name embedding_model \<Rightarrow>
             bind_io (create_dataset srv client name embedding_model ''me'' ''naive'' JNull)
               (\<lambda>result.
             bind_io (lift_io (subscript result ''data'')) (\<lambda>d.
             bind_io (lift_io (subscript d ''name'')) (\<lambda>n.
             bind_io (lift_io (subscript result ''data'')) (\<lambda>d'.
             bind_io (lift_io (subscript d' ''id'')) (\<lambda>i.
             bind_io (print (''Created dataset: '' @ py_str rt n @ '' (ID: '' @ py_str rt i
                             @ '')'')) (\<lambda>_.
             return_io 0))))))
         | DatasetList page page_size \<Rightarrow>
             bind_io (list_datasets srv client page page_size ''create_time'' True None None)
               (\<lambda>result.
             bind_io (lift_io (subscript result ''total'')) (\<lambda>tot.
             bind_io (print (''Found '' @ py_str rt tot @ '' datasets:'')) (\<lambda>_.
             bind_io (lift_io (subscript result ''data'')) (\<lambda>d.
             bind_io (lift_io (py_iter d)) (\<lambda>ds.
             bind_io (print_datasets rt ds) (\<lambda>_.
             return_io 0))))))
         | DatasetDelete ids \<Rightarrow>
             bind_io (delete_datasets srv client ids) (\<lambda>_.
             bind_io (print (''Deleted '' @ string_of_nat (length ids) @ '' datasets'')) (\<lambda>_.
             return_io 0))
         | DocumentUpload dataset_id file_paths \<Rightarrow>
             bind_io (upload_documents srv client dataset_id file_paths) (\<lambda>result.
             bind_io (lift_io (subscript result ''data'')) (\<lambda>d.
             bind_io (lift_io (py_len d)) (\<lambda>n.
             bind_io (print (''Uploaded '' @ string_of_nat n @ '' documents'')) (\<lambda>_.
             bind_io (lift_io (subscript result ''data'')) (\<lambda>d'.
             bind_io (lift_io (py_iter d')) (\<lambda>docs.
             bind_io (print_documents rt docs) (\<lambda>_.
             return_io 0))))))))"

text \<open>\<open>dict.get(k, default)\<close>; on anything but a dict the attribute lookup fails.\<close>

fun dict_get :: "json \<Rightarrow> string \<Rightarrow> json \<Rightarrow> error + json" where
  "dict_get (JObj kvs) k d = Inr (case map_of kvs k of None \<Rightarrow> d | Some v \<Rightarrow> v)"
| "dict_get v k d = Inl (AttributeError ''object has no attribute get'')"

text \<open>\<open>handle_ragflow_error\<close>: the bare \<open>except\<close> turns every failure of the first
  attempt into the plain HTTP message.\<close>

definition handle_ragflow_error :: "runtime \<Rightarrow> response \<Rightarrow> string" where
  "handle_ragflow_error rt resp =
     (case (case response_json resp of
              Inl e \<Rightarrow> Inl e
            | Inr error_data \<Rightarrow>
                (case dict_get error_data ''code'' JNull of
                   Inl e \<Rightarrow> Inl e
                 | Inr error_code \<Rightarrow>
                     (case dict_get error_data ''message'' (JStr ''Unknown error'') of
                        Inl e \<Rightarrow> Inl e
                      | Inr error_message \<Rightarrow>
                          Inr (''RAGFlow Error '' @ py_str rt error_code @ '': ''
                               @ py_str rt error_message)))) of
        Inr msg \<Rightarrow> msg
      | Inl e \<Rightarrow> ''HTTP Error '' @ string_of_nat (status_code resp) @ '': '' @ text_of resp)"

text \<open>The \<open>__main__\<close> block: \<open>exit(cli.run())\<close> under the two handlers.\<close>

definition ragflow_main ::
  "runtime \<Rightarrow> server \<Rightarrow> string \<Rightarrow> string \<Rightarrow> ragflow_command \<Rightarrow> world \<Rightarrow> int \<times> world" where
  "ragflow_main rt srv key b cmd w =
     (case run rt srv key b cmd w of
        (Inr code, w') \<Rightarrow> (code, w')
      | (Inl (HTTPError resp), w') \<Rightarrow>
          (1, snd (print (''Error: '' @ handle_ragflow_error rt resp) w'))
      | (Inl e, w') \<Rightarrow> (1, snd (print (''Unexpected error: '' @ describe rt e) w')))"

section \<open>Vocabulary of the properties\<close>

text \<open>A terminal status, the kinds of error \<open>get_result\<close> can end with, and the outcomes
  the bounded poll may have: a record that is terminal or was fetched without waiting, the
  timeout, or the error of a fetch (transport failure, HTTP error status, unparsable body,
  missing or unreadable \<open>status\<close>).\<close>

definition is_terminal :: "json \<Rightarrow> bool" where
  "is_terminal st = (st = JStr ''completed'' \<or> st = JStr ''failed'')"

fun timeout_kind :: "error \<Rightarrow> bool" where
  "timeout_kind (TimeoutError m) = True"
| "timeout_kind e = False"

fun fetch_error :: "error \<Rightarrow> bool" where
  "fetch_error (TransportError m) = True"
| "fetch_error (HTTPError r) = True"
| "fetch_error JSONDecodeError = True"
| "fetch_error (KeyError k) = True"
| "fetch_error (TypeError m) = True"
| "fetch_error e = False"

definition good_outcome :: "bool \<Rightarrow> error + json \<Rightarrow> bool" where
  "good_outcome wait r =
     (case r of
        Inr result \<Rightarrow>
          (case subscript result ''status'' of
             Inr st \<Rightarrow> is_terminal st \<or> \<not> wait
           | Inl e \<Rightarrow> False)
      | Inl e \<Rightarrow> timeout_kind e \<or> fetch_error e)"

text \<open>A reply that leaves the job unfinished: a response without error status whose body
  is a record with a status that is not terminal.\<close>

definition non_terminal_reply :: "reply \<Rightarrow> bool" where
  "non_terminal_reply rp =
     (case outcome rp of
        Inl msg \<Rightarrow> False
      | Inr resp \<Rightarrow>
          raise_for_status resp = Inr () \<and>
          (case body resp of
             None \<Rightarrow> False
           | Some result \<Rightarrow>
               (case subscript result ''status'' of
                  Inl e \<Rightarrow> False
                | Inr st \<Rightarrow> \<not> is_terminal st)))"

text \<open>The polling state that never changes: the service answers \<open>running\<close> at once, the
  interval is zero, sleeps are exact, and the time limit is not yet exceeded.\<close>

definition ok_reply :: "json \<Rightarrow> reply" where
  "ok_reply v =
     \<lparr>latency = 0, outcome = Inr \<lparr>status_code = 200, text_of = [], body = Some v\<rparr>\<rparr>"

definition running_server :: server where
  "running_server n rq = ok_reply (JObj [(''status'', JStr ''running'')])"

definition frozen_poll ::
  "server \<Rightarrow> request \<Rightarrow> bool \<Rightarrow> int \<Rightarrow> int \<Rightarrow> int \<Rightarrow> world \<Rightarrow> bool" where
  "frozen_poll srv rq wait tmo p start w =
     (srv = running_server \<and> wait \<and> p = 0 \<and> files rq = [] \<and> 0 \<le> sleep_limit w
      \<and> oversleep w = (\<lambda>n. 0) \<and> clock w - start \<le> tmo * ticks_per_second)"

text \<open>\<open>joins_once b u\<close>: the URL \<open>u\<close> is the base \<open>b\<close>, one slash, and a rest that does
  not begin with a slash, where \<open>b\<close> does not end with one.\<close>

definition joins_once :: "string \<Rightarrow> string \<Rightarrow> bool" where
  "joins_once b u =
     (prefix (b @ ''/'') u \<and> \<not> suffix ''/'' b \<and> \<not> prefix ''/'' (drop (length b + 1) u))"

fun file_not_found :: "error \<Rightarrow> bool" where
  "file_not_found (FileNotFoundError p) = True"
| "file_not_found e = False"

subsection \<open>Replies, exit codes and printed lines\<close>



text \<open>The world after the request \<open>rq\<close> went out and its reply came in, and the world
  after one more line was printed.\<close>

definition sent :: "server \<Rightarrow> request \<Rightarrow> world \<Rightarrow> world" where
  "sent srv rq w =
     w\<lparr>clock := clock w + latency (srv (length (net w)) rq), net := net w @ [rq]\<rparr>"

definition says :: "string \<Rightarrow> world \<Rightarrow> world" where
  "says line w = w\<lparr>stdout := stdout w @ [line]\<rparr>"


definition ragflow_error_line :: "runtime \<Rightarrow> error \<Rightarrow> string" where
  "ragflow_error_line rt e =
     (case e of
        HTTPError resp \<Rightarrow> ''Error: '' @ handle_ragflow_error rt resp
      | _ \<Rightarrow> ''Unexpected error: '' @ describe rt e)"


text \<open>The client of the MinRUE command line, and the state in which its \<open>result\<close> command
  starts to poll.\<close>

definition cli_minrue :: http_client where
  "cli_minrue = MinRueClient ''http://localhost:8000/v1'' 30 3"

definition polling :: "string \<Rightarrow> world \<Rightarrow> world" where
  "polling job_id w = says (''Retrieving results for job ID: '' @ job_id) w"





definition fetched :: "server \<Rightarrow> string \<Rightarrow> world \<Rightarrow> world" where
  "fetched srv job_id w = sent srv (get_result_request cli_minrue job_id) (polling job_id w)"

section \<open>Example environments\<close>

text \<open>Nothing on disk, every name free; sleeps are exact and accepted up to 9223359879
  seconds; every write succeeds.\<close>

definition empty_world :: world where
  "empty_world =
     \<lparr>clock = 0, fs = (\<lambda>p. Inl NoEntry), handles = [], net = [], slept = [], stdout = [],
      written = [], sleep_limit = 9223359879, oversleep = (\<lambda>n. 0),
      write_fault = (\<lambda>p s. None)\<rparr>"

text \<open>A file system with the file \<open>a.txt\<close> and the directory \<open>docs\<close>; \<open>a.txt/x\<close> lies
  below the regular file, and \<open>nodir/out.txt\<close> in a directory that does not exist.\<close>

definition small_world :: world where
  "small_world =
     empty_world\<lparr>fs := (\<lambda>p. if p = ''a.txt'' then Inr RegularFile
                              else if p = ''docs'' then Inr Directory
                              else if p = ''a.txt/x'' then Inl NotADirectory
                              else if p = ''nodir/out.txt'' then Inl NoParent
                              else Inl NoEntry)\<rparr>"

text \<open>A service whose replies take 30 seconds.\<close>

definition slow_server :: server where
  "slow_server n rq =
     (ok_reply (JObj [(''status'', JStr ''running'')]))\<lparr>latency := 30 * ticks_per_second\<rparr>"

definition completed_server :: server where
  "completed_server n rq =
     ok_reply (JObj [(''status'', JStr ''completed''), (''output'', JStr ''Refined notes.'')])"

definition not_found_response :: response where
  "not_found_response = \<lparr>status_code = 404, text_of = ''Not Found'', body = None\<rparr>"

definition not_found_server :: server where
  "not_found_server n rq = \<lparr>latency = 0, outcome = Inr not_found_response\<rparr>"

definition no_status_server :: server where
  "no_status_server n rq = ok_reply (JObj [(''job_id'', JStr ''j1'')])"

definition kb1_server :: server where
  "kb1_server n rq =
     ok_reply (JObj [(''data'', JObj [(''id'', JStr ''d1''), (''name'', JStr ''kb1'')])])"

definition plain_runtime :: runtime where
  "plain_runtime =
     \<lparr>dumps = (\<lambda>v. ''<json>''), dumps_indent = (\<lambda>v. ''<json>''), repr = (\<lambda>v. ''<value>''),
      describe = (\<lambda>e. ''<error>'')\<rparr>"

definition local_minrue :: http_client where
  "local_minrue = MinRueClient ''http://localhost:8000/v1/'' 30 3"

definition local_ragflow :: ragflow_client where
  "local_ragflow = RagflowClient ''key'' ''http://localhost:8000/v1/'' 30 3"


section \<open>Properties of the primitives\<close>

lemma dropWhile_replicate_same:
  "dropWhile (\<lambda>x. x = c) (replicate n c @ ys) = dropWhile (\<lambda>x. x = c) ys"
  by (induction n) simp_all

lemma rstrip_replicate: "rstrip c (b @ replicate n c) = rstrip c b"
  by (simp add: rstrip_def dropWhile_replicate_same)

lemma takeWhile_same_replicate:
  "takeWhile (\<lambda>x. x = c) xs = replicate (length (takeWhile (\<lambda>x. x = c) xs)) c"
  by (induction xs) simp_all

lemma rstrip_decompose: "s = rstrip c s @ replicate (length s - length (rstrip c s)) c"
proof -
  let ?t = "takeWhile (\<lambda>x. x = c) (rev s)" and ?d = "dropWhile (\<lambda>x. x = c) (rev s)"
  have "rev s = ?t @ ?d"
    by simp
  then have "s = rev ?d @ rev ?t"
    by (metis rev_append rev_rev_ident)
  moreover have "rev ?t = replicate (length ?t) c"
    by (metis takeWhile_same_replicate rev_replicate)
  moreover have "length s - length (rev ?d) = length ?t"
    by (metis \<open>rev s = ?t @ ?d\<close> add_diff_cancel_right' length_append length_rev)
  ultimately show ?thesis
    by (simp add: rstrip_def)
qed

lemma rstrip_no_trailing: "\<not> suffix [c] (rstrip c s)"
proof
  assume "suffix [c] (rstrip c s)"
  then obtain xs where xs: "rev (dropWhile (\<lambda>x. x = c) (rev s)) = xs @ [c]"
    by (auto simp: rstrip_def suffix_def)
  then have "dropWhile (\<lambda>x. x = c) (rev s) = c # rev xs"
    by (metis rev_rev_ident rev_append rev.simps append_Nil)
  then show False
    using hd_dropWhile [of "\<lambda>x. x = c" "rev s"] by simp
qed

lemma joins_once_rstrip:
  "x \<noteq> CHR ''/'' \<Longrightarrow>
     joins_once (rstrip CHR ''/'' b) (rstrip CHR ''/'' b @ CHR ''/'' # x # rest)"
  using rstrip_no_trailing [of "CHR ''/''" b] by (simp add: joins_once_def)

lemma files_mk_request [simp]: "files (mk_request m u t) = []"
  by (simp add: mk_request_def)

lemma files_get_result_request [simp]: "files (get_result_request c job_id) = []"
  by (simp add: get_result_request_def)

lemma call_json_world:
  assumes "files rq = []"
  shows "snd (call_json srv rq w) =
           w\<lparr>clock := clock w + latency (srv (length (net w)) rq), net := net w @ [rq]\<rparr>"
  using assms
  by (simp add: call_json_def bind_io_def lift_io_def session_request_def Let_def
        split: sum.splits prod.splits)

lemma call_json_ok:
  assumes "files rq = []"
    and "outcome (srv (length (net w)) rq) = Inr resp"
    and "raise_for_status resp = Inr ()"
    and "body resp = Some v"
  shows "call_json srv rq w =
           (Inr v, w\<lparr>clock := clock w + latency (srv (length (net w)) rq), net := net w @ [rq]\<rparr>)"
  using assms
  by (simp add: call_json_def bind_io_def lift_io_def session_request_def response_json_def
        Let_def)

lemma call_json_error:
  assumes "files rq = []" and "fst (call_json srv rq w) = Inl e"
  shows "fetch_error e"
  using assms
  by (auto simp: call_json_def bind_io_def lift_io_def session_request_def Let_def
        raise_for_status_def response_json_def
        split: sum.splits prod.splits if_splits option.splits)

lemma subscript_error: "subscript v k = Inl e \<Longrightarrow> fetch_error e"
  by (cases v) (auto split: option.splits)

section \<open>Base URL normalisation\<close>

text \<open>
  Claim C10. For every base URL \<open>b\<close>, the base that a client stores is \<open>b\<close> without its
  trailing slashes and nothing else: \<open>b\<close> is the stored base followed by slashes only, and
  the stored base does not end with a slash. A client constructed with \<open>b\<close> and a client
  constructed with \<open>b\<close> followed by any number of trailing slashes are therefore the same
  client, for both classes, so every operation builds the same request URL from either;
  and the URL of every operation joins the stored base and the path with exactly one slash.
\<close>

theorem base_url_normalised:
  "b = base_url (MinRueClient b t r)
         @ replicate (length b - length (base_url (MinRueClient b t r))) CHR ''/''
   \<and> \<not> suffix ''/'' (base_url (MinRueClient b t r))
   \<and> b = base_url (RagflowClient k b t r)
         @ replicate (length b - length (base_url (RagflowClient k b t r))) CHR ''/''
   \<and> \<not> suffix ''/'' (base_url (RagflowClient k b t r))
   \<and> MinRueClient (b @ replicate n CHR ''/'') t r = MinRueClient b t r
   \<and> RagflowClient k (b @ replicate n CHR ''/'') t r = RagflowClient k b t r
   \<and> joins_once (base_url (MinRueClient b t r)) (get_health_url (MinRueClient b t r))
   \<and> joins_once (base_url (MinRueClient b t r)) (list_models_url (MinRueClient b t r))
   \<and> joins_once (base_url (MinRueClient b t r)) (list_tasks_url (MinRueClient b t r))
   \<and> joins_once (base_url (MinRueClient b t r)) (process_file_url (MinRueClient b t r))
   \<and> joins_once (base_url (MinRueClient b t r)) (get_result_url (MinRueClient b t r) job_id)
   \<and> joins_once (base_url (RagflowClient k b t r))
        (create_chat_completion_url (RagflowClient k b t r) chat_id)
   \<and> joins_once (base_url (RagflowClient k b t r))
        (create_agent_completion_url (RagflowClient k b t r) agent_id)
   \<and> joins_once (base_url (RagflowClient k b t r)) (create_dataset_url (RagflowClient k b t r))
   \<and> joins_once (base_url (RagflowClient k b t r)) (list_datasets_url (RagflowClient k b t r))
   \<and> joins_once (base_url (RagflowClient k b t r))
        (update_dataset_url (RagflowClient k b t r) dataset_id)
   \<and> joins_once (base_url (RagflowClient k b t r)) (delete_datasets_url (RagflowClient k b t r))
   \<and> joins_once (base_url (RagflowClient k b t r))
        (upload_documents_url (RagflowClient k b t r) dataset_id)
   \<and> joins_once (base_url (RagflowClient k b t r))
        (update_document_url (RagflowClient k b t r) dataset_id document_id)
   \<and> joins_once (base_url (RagflowClient k b t r))
        (construct_knowledge_graph_url (RagflowClient k b t r) dataset_id)
   \<and> joins_once (base_url (RagflowClient k b t r))
        (get_knowledge_graph_url (RagflowClient k b t r) dataset_id)
   \<and> joins_once (base_url (RagflowClient k b t r))
        (get_graphrag_status_url (RagflowClient k b t r) dataset_id)
   \<and> joins_once (base_url (RagflowClient k b t r))
        (delete_knowledge_graph_url (RagflowClient k b t r) dataset_id)
   \<and> joins_once (base_url (RagflowClient k b t r))
        (construct_raptor_url (RagflowClient k b t r) dataset_id)
   \<and> joins_once (base_url (RagflowClient k b t r))
        (get_raptor_status_url (RagflowClient k b t r) dataset_id)"
proof -
  have m: "base_url (MinRueClient b t r) = rstrip CHR ''/'' b"
    by (simp add: MinRueClient_def)
  have g: "base_url (RagflowClient k b t r) = rstrip CHR ''/'' b"
    by (simp add: RagflowClient_def)
  show ?thesis
    unfolding get_health_url_def list_models_url_def list_tasks_url_def process_file_url_def
      get_result_url_def create_chat_completion_url_def create_agent_completion_url_def
      create_dataset_url_def list_datasets_url_def update_dataset_url_def
      delete_datasets_url_def upload_documents_url_def update_document_url_def
      construct_knowledge_graph_url_def get_knowledge_graph_url_def
      get_graphrag_status_url_def delete_knowledge_graph_url_def construct_raptor_url_def
      get_raptor_status_url_def m g
    using rstrip_decompose [of b "CHR ''/''"] rstrip_no_trailing [of "CHR ''/''" b]
    by (simp add: MinRueClient_def RagflowClient_def rstrip_replicate joins_once_rstrip)
qed

text \<open>The same at the base \<open>http://h/v1//\<close>, and with three more slashes.\<close>

theorem base_url_normalised_witness:
  "''http://h/v1//'' = base_url (MinRueClient ''http://h/v1//'' 30 3)
       @ replicate (length ''http://h/v1//'' - length (base_url (MinRueClient ''http://h/v1//'' 30 3)))
           CHR ''/''
   \<and> \<not> suffix ''/'' (base_url (MinRueClient ''http://h/v1//'' 30 3))
   \<and> MinRueClient (''http://h/v1//'' @ replicate 3 CHR ''/'') 30 3
       = MinRueClient ''http://h/v1//'' 30 3
   \<and> RagflowClient ''key'' (''http://h/v1//'' @ replicate 3 CHR ''/'') 30 3
       = RagflowClient ''key'' ''http://h/v1//'' 30 3
   \<and> joins_once (base_url (MinRueClient ''http://h/v1//'' 30 3))
        (get_result_url (MinRueClient ''http://h/v1//'' 30 3) ''job-42'')
   \<and> joins_once (base_url (RagflowClient ''key'' ''http://h/v1//'' 30 3))
        (get_knowledge_graph_url (RagflowClient ''key'' ''http://h/v1//'' 30 3) ''d1'')"
  using base_url_normalised
    [of "''http://h/v1//''" 30 3 "''key''" 3 "''job-42''" "''c1''" "''a1''" "''d1''" "''doc1''"]
  by (elim conjE, intro conjI) assumption+

section \<open>Knowledge-graph endpoints\<close>

text \<open>
  Claim C5, as the code has it. For every dataset id, retrieval issues one GET and deletion
  one DELETE to \<open>/datasets/{id}/knowledge_graph\<close> under the base URL, and construction
  issues one POST to \<open>/datasets/{id}/run_graphrag\<close>.
\<close>

theorem knowledge_graph_requests:
  "net (snd (construct_knowledge_graph srv c dataset_id w)) =
     net w @ [mk_request POST (base_url c @ ''/datasets/'' @ dataset_id @ ''/run_graphrag'')
                (timeout c)]
   \<and> net (snd (get_knowledge_graph srv c dataset_id w)) =
     net w @ [mk_request GET (base_url c @ ''/datasets/'' @ dataset_id @ ''/knowledge_graph'')
                (timeout c)]
   \<and> net (snd (delete_knowledge_graph srv c dataset_id w)) =
     net w @ [mk_request DELETE (base_url c @ ''/datasets/'' @ dataset_id @ ''/knowledge_graph'')
                (timeout c)]"
  by (simp add: construct_knowledge_graph_def get_knowledge_graph_def
        delete_knowledge_graph_def call_json_world construct_knowledge_graph_url_def
        get_knowledge_graph_url_def delete_knowledge_graph_url_def)

text \<open>The three requests for dataset \<open>d1\<close> on the local service.\<close>

theorem knowledge_graph_requests_witness:
  "map url (net (snd (construct_knowledge_graph kb1_server local_ragflow ''d1'' empty_world))) =
     [''http://localhost:8000/v1/datasets/d1/run_graphrag'']
   \<and> map meth (net (snd (construct_knowledge_graph kb1_server local_ragflow ''d1'' empty_world))) =
     [POST]"
  using knowledge_graph_requests [of kb1_server local_ragflow "''d1''" empty_world]
  by (simp add: local_ragflow_def RagflowClient_def rstrip_def empty_world_def mk_request_def)

text \<open>
  Claim C5 as stated fails: the URL that construction posts to for dataset \<open>d1\<close> does not
  end in \<open>/datasets/d1/knowledge_graph\<close>.
\<close>

theorem construct_knowledge_graph_counterexample:
  "\<not> suffix ''/datasets/d1/knowledge_graph''
       (url (last (net (snd (construct_knowledge_graph kb1_server local_ragflow ''d1''
                               empty_world)))))"
  by (simp add: construct_knowledge_graph_def call_json_world construct_knowledge_graph_url_def
        local_ragflow_def RagflowClient_def rstrip_def empty_world_def mk_request_def
        suffix_def)

section \<open>The bounded poll\<close>

text \<open>One round of the loop, given what the fetch returned.\<close>

lemma get_result_loop_unfold:
  assumes "call_json srv rq w = (r1, w1)"
  shows "get_result_loop srv rq wait tmo p start w =
     (case r1 of
        Inl e \<Rightarrow> Some (Inl e, w1)
      | Inr result \<Rightarrow>
          (case subscript result ''status'' of
             Inl e \<Rightarrow> Some (Inl e, w1)
           | Inr st \<Rightarrow>
               if st = JStr ''completed'' \<or> st = JStr ''failed'' \<or> \<not> wait
               then Some (Inr result, w1)
               else if clock w1 - start > tmo * ticks_per_second
               then Some (Inl (TimeoutError ''Result retrieval timed out''), w1)
               else (case time_sleep p w1 of
                       (Inl e, w2) \<Rightarrow> Some (Inl e, w2)
                     | (Inr u, w2) \<Rightarrow> get_result_loop srv rq wait tmo p start w2)))"
  by (subst get_result_loop.simps) (simp add: assms)

lemma get_result_loop_done:
  assumes "call_json srv rq w = (Inr result, w1)"
    and "subscript result ''status'' = Inr st"
    and "st = JStr ''completed'' \<or> st = JStr ''failed'' \<or> \<not> wait"
  shows "get_result_loop srv rq wait tmo p start w = Some (Inr result, w1)"
  using get_result_loop_unfold [OF assms(1), of wait tmo p start] assms(2,3)
  by auto

text \<open>
  Claim C9. In every round of the poll, whatever the wait flag, the time limit, the interval
  and the state reached so far: if the response has a 2xx status and its body parses to a
  JSON object without the key \<open>status\<close>, the call raises \<open>KeyError\<close> for that key after
  this one fetch; it neither returns a record nor raises a parse or timeout error.
\<close>

theorem get_result_missing_status:
  assumes "outcome (srv (length (net w)) (get_result_request c job_id)) = Inr resp"
    and "200 \<le> status_code resp" and "status_code resp < 300"
    and "body resp = Some (JObj kvs)"
    and "map_of kvs ''status'' = None"
  shows "get_result_loop srv (get_result_request c job_id) wait tmo polling_interval start w =
           Some (Inl (KeyError ''status''),
                 w\<lparr>clock := clock w + latency (srv (length (net w)) (get_result_request c job_id)),
                    net := net w @ [get_result_request c job_id]\<rparr>)"
proof -
  have "raise_for_status resp = Inr ()"
    using assms(2,3) by (simp add: raise_for_status_def)
  with assms have "call_json srv (get_result_request c job_id) w =
          (Inr (JObj kvs),
           w\<lparr>clock := clock w + latency (srv (length (net w)) (get_result_request c job_id)),
              net := net w @ [get_result_request c job_id]\<rparr>)"
    by (intro call_json_ok) simp_all
  from get_result_loop_unfold [OF this] assms(5) show ?thesis
    by simp
qed

text \<open>A service that answers \<open>{"job_id": "j1"}\<close>, with and without waiting.\<close>

theorem get_result_missing_status_witness:
  "map_option fst (get_result no_status_server local_minrue ''j1'' True 60 3 empty_world) =
     Some (Inl (KeyError ''status''))
   \<and> map_option fst (get_result no_status_server local_minrue ''j1'' False 60 3 empty_world) =
     Some (Inl (KeyError ''status''))"
  using get_result_missing_status
          [of no_status_server empty_world local_minrue "''j1''"
              "\<lparr>status_code = 200, text_of = [], body = Some (JObj [(''job_id'', JStr ''j1'')])\<rparr>"
              "[(''job_id'', JStr ''j1'')]" True 60 3 0]
        get_result_missing_status
          [of no_status_server empty_world local_minrue "''j1''"
              "\<lparr>status_code = 200, text_of = [], body = Some (JObj [(''job_id'', JStr ''j1'')])\<rparr>"
              "[(''job_id'', JStr ''j1'')]" False 60 3 0]
  by (simp add: get_result_def no_status_server_def ok_reply_def empty_world_def)

text \<open>
  Claim C2. If the first fetch succeeds with a record whose status is \<open>completed\<close> or
  \<open>failed\<close>, or if wait is false and the record has any status at all, then \<open>get_result\<close>
  returns that record after exactly one request and without sleeping.
\<close>

theorem get_result_first_fetch:
  assumes "outcome (srv (length (net w)) (get_result_request c job_id)) = Inr resp"
    and "raise_for_status resp = Inr ()"
    and "body resp = Some result"
    and "subscript result ''status'' = Inr st"
    and "is_terminal st \<or> \<not> wait"
  shows "\<exists>w'. get_result srv c job_id wait tmo polling_interval w = Some (Inr result, w')
              \<and> net w' = net w @ [get_result_request c job_id]
              \<and> slept w' = slept w"
proof -
  from assms have "call_json srv (get_result_request c job_id) w =
          (Inr result,
           w\<lparr>clock := clock w + latency (srv (length (net w)) (get_result_request c job_id)),
              net := net w @ [get_result_request c job_id]\<rparr>)"
    by (intro call_json_ok) simp_all
  from get_result_loop_unfold [OF this] assms(4,5) show ?thesis
    by (auto simp: get_result_def is_terminal_def)
qed

text \<open>A finished job fetched while waiting, and a running job fetched without.\<close>

theorem get_result_first_fetch_witness:
  "is_terminal (JStr ''completed'')
   \<and> (\<exists>w'. get_result completed_server local_minrue ''job-42'' True 120 3 empty_world =
              Some (Inr (JObj [(''status'', JStr ''completed''),
                               (''output'', JStr ''Refined notes.'')]), w')
           \<and> net w' = net empty_world @ [get_result_request local_minrue ''job-42'']
           \<and> slept w' = slept empty_world)
   \<and> (\<exists>w'. get_result running_server local_minrue ''job-42'' False 120 3 empty_world =
              Some (Inr (JObj [(''status'', JStr ''running'')]), w')
           \<and> net w' = net empty_world @ [get_result_request local_minrue ''job-42'']
           \<and> slept w' = slept empty_world)"
proof -
  have t: "is_terminal (JStr ''completed'')"
    by (simp add: is_terminal_def)
  have a: "\<exists>w'. get_result completed_server local_minrue ''job-42'' True 120 3 empty_world =
              Some (Inr (JObj [(''status'', JStr ''completed''),
                               (''output'', JStr ''Refined notes.'')]), w')
           \<and> net w' = net empty_world @ [get_result_request local_minrue ''job-42'']
           \<and> slept w' = slept empty_world"
    by (rule get_result_first_fetch
              [where st = "JStr ''completed''"
                 and resp = "\<lparr>status_code = 200, text_of = [],
                              body = Some (JObj [(''status'', JStr ''completed''),
                                                 (''output'', JStr ''Refined notes.'')])\<rparr>"])
       (simp_all add: completed_server_def ok_reply_def raise_for_status_def is_terminal_def)
  have b: "\<exists>w'. get_result running_server local_minrue ''job-42'' False 120 3 empty_world =
              Some (Inr (JObj [(''status'', JStr ''running'')]), w')
           \<and> net w' = net empty_world @ [get_result_request local_minrue ''job-42'']
           \<and> slept w' = slept empty_world"
    by (rule get_result_first_fetch
              [where st = "JStr ''running''"
                 and resp = "\<lparr>status_code = 200, text_of = [],
                              body = Some (JObj [(''status'', JStr ''running'')])\<rparr>"])
       (simp_all add: running_server_def ok_reply_def raise_for_status_def)
  from t a b show ?thesis by blast
qed

text \<open>Termination: replies take no negative time and a round of fetching and sleeping
  takes at least a nanosecond, so the clock passes the time limit after finitely many
  rounds.\<close>

lemma time_sleep_accepted:
  assumes "0 \<le> p" and "p \<le> 9223372036" and "p \<le> sleep_limit w"
  shows "time_sleep p w =
           (Inr (), w\<lparr>clock := clock w + p * ticks_per_second
                                 + int (oversleep w (length (slept w))),
                       slept := slept w @ [p]\<rparr>)"
  using assms by (simp add: time_sleep_def)

lemma get_result_loop_total:
  assumes rq: "files rq = []"
    and p0: "0 \<le> p" and p1: "p \<le> 9223372036"
    and lat: "\<And>n. 0 \<le> latency (srv n rq)"
    and adv: "\<And>n. 1 \<le> p * ticks_per_second + latency (srv n rq)"
    and lim: "p \<le> sleep_limit w"
  shows "\<exists>r w'. get_result_loop srv rq wait tmo p start w = Some (r, w') \<and> good_outcome wait r"
  using lim
proof (induction "nat (tmo * ticks_per_second + 1 - (clock w - start))" arbitrary: w
         rule: less_induct)
  case less
  obtain r1 w1 where c: "call_json srv rq w = (r1, w1)"
    by fastforce
  have w1: "w1 = w\<lparr>clock := clock w + latency (srv (length (net w)) rq), net := net w @ [rq]\<rparr>"
    using call_json_world [OF rq, of srv w] c by simp
  note unf = get_result_loop_unfold [OF c, of wait tmo p start]
  show ?case
  proof (cases r1)
    case (Inl e)
    with c rq have "fetch_error e"
      using call_json_error [of rq srv w e] by simp
    with Inl unf show ?thesis
      by (simp add: good_outcome_def)
  next
    case (Inr result)
    show ?thesis
    proof (cases "subscript result ''status''")
      case (Inl e)
      then have "fetch_error e" by (rule subscript_error)
      with Inl Inr unf show ?thesis
        by (simp add: good_outcome_def)
    next
      case st: (Inr st)
      show ?thesis
      proof (cases "st = JStr ''completed'' \<or> st = JStr ''failed'' \<or> \<not> wait")
        case True
        with st Inr unf show ?thesis
          by (auto simp: good_outcome_def is_terminal_def)
      next
        case cont: False
        show ?thesis
        proof (cases "clock w1 - start > tmo * ticks_per_second")
          case True
          with cont st Inr unf show ?thesis
            by (simp add: good_outcome_def)
        next
          case False
          define w2 where "w2 = w1\<lparr>clock := clock w1 + p * ticks_per_second
                                           + int (oversleep w1 (length (slept w1))),
                                   slept := slept w1 @ [p]\<rparr>"
          have sl: "time_sleep p w1 = (Inr (), w2)"
            unfolding w2_def using p0 p1 less.prems by (intro time_sleep_accepted) (simp_all add: w1)
          have eq: "get_result_loop srv rq wait tmo p start w =
                      get_result_loop srv rq wait tmo p start w2"
            using cont st Inr unf False sl by simp
          have c2: "clock w2 = clock w + (p * ticks_per_second + latency (srv (length (net w)) rq))
                        + int (oversleep w (length (slept w)))"
            by (simp add: w2_def w1)
          have "clock w - start \<le> tmo * ticks_per_second"
            using False lat [of "length (net w)"] by (simp add: w1)
          with c2 adv [of "length (net w)"]
          have "nat (tmo * ticks_per_second + 1 - (clock w2 - start))
                  < nat (tmo * ticks_per_second + 1 - (clock w - start))"
            by simp
          moreover have "p \<le> sleep_limit w2"
            using less.prems by (simp add: w2_def w1)
          ultimately show ?thesis
            using less.hyps [of w2] eq by simp
        qed
      qed
    qed
  qed
qed

lemma call_json_pending:
  assumes rq: "files rq = []" and nt: "non_terminal_reply (srv (length (net w)) rq)"
  shows "\<exists>result st. fst (call_json srv rq w) = Inr result \<and> subscript result ''status'' = Inr st
           \<and> \<not> is_terminal st"
proof -
  from nt obtain resp where o: "outcome (srv (length (net w)) rq) = Inr resp"
    by (cases "outcome (srv (length (net w)) rq)") (auto simp: non_terminal_reply_def)
  with nt have ok: "raise_for_status resp = Inr ()"
    by (simp add: non_terminal_reply_def)
  from nt o obtain result where b: "body resp = Some result"
    by (cases "body resp") (auto simp: non_terminal_reply_def)
  from nt o b obtain st where st: "subscript result ''status'' = Inr st"
    by (cases "subscript result ''status''") (auto simp: non_terminal_reply_def)
  from nt o b st have "\<not> is_terminal st"
    by (simp add: non_terminal_reply_def)
  with rq o ok b st show ?thesis
    by (simp add: call_json_def bind_io_def lift_io_def session_request_def Let_def
          response_json_def)
qed

text \<open>A job that never reaches a terminal status: waiting ends with the timeout, and the
  clock then reads at most the time limit, one interval, the longest oversleep and the
  longest latency after the start.\<close>

lemma get_result_loop_never_terminal:
  assumes rq: "files rq = []"
    and p0: "0 \<le> p" and p1: "p \<le> 9223372036"
    and lat: "\<And>n. 0 \<le> latency (srv n rq)"
    and adv: "\<And>n. 1 \<le> p * ticks_per_second + latency (srv n rq)"
    and nt: "\<And>n. non_terminal_reply (srv n rq)"
    and lim: "p \<le> sleep_limit w"
  shows "\<exists>w'. get_result_loop srv rq True tmo p start w =
                 Some (Inl (TimeoutError ''Result retrieval timed out''), w')
              \<and> (clock w - start \<le> (tmo + p) * ticks_per_second + S
                   \<and> (\<forall>n. latency (srv n rq) \<le> L) \<and> (\<forall>n. int (oversleep w n) \<le> S)
                  \<longrightarrow> clock w' - start \<le> (tmo + p) * ticks_per_second + S + L)"
  using lim
proof (induction "nat (tmo * ticks_per_second + 1 - (clock w - start))" arbitrary: w
         rule: less_induct)
  case less
  obtain r1 w1 where c: "call_json srv rq w = (r1, w1)"
    by fastforce
  have w1: "w1 = w\<lparr>clock := clock w + latency (srv (length (net w)) rq), net := net w @ [rq]\<rparr>"
    using call_json_world [OF rq, of srv w] c by simp
  note unf = get_result_loop_unfold [OF c, of True tmo p start]
  have "\<exists>result st. fst (call_json srv rq w) = Inr result
          \<and> subscript result ''status'' = Inr st \<and> \<not> is_terminal st"
    by (rule call_json_pending) (simp_all add: rq nt)
  with c obtain result st where r1: "r1 = Inr result" and st: "subscript result ''status'' = Inr st"
    and nterm: "\<not> is_terminal st"
    by auto
  from nterm have cont: "\<not> (st = JStr ''completed'' \<or> st = JStr ''failed'' \<or> \<not> True)"
    by (simp add: is_terminal_def)
  show ?case
  proof (cases "clock w1 - start > tmo * ticks_per_second")
    case True
    have "clock w1 - start \<le> (tmo + p) * ticks_per_second + S + L"
      if "clock w - start \<le> (tmo + p) * ticks_per_second + S" and "\<forall>n. latency (srv n rq) \<le> L"
    proof -
      from that(2) have "latency (srv (length (net w)) rq) \<le> L"
        by blast
      with that(1) show ?thesis
        by (simp add: w1)
    qed
    with True cont st r1 unf show ?thesis
      by simp
  next
    case False
    define w2 where "w2 = w1\<lparr>clock := clock w1 + p * ticks_per_second
                                     + int (oversleep w1 (length (slept w1))),
                             slept := slept w1 @ [p]\<rparr>"
    have sl: "time_sleep p w1 = (Inr (), w2)"
      unfolding w2_def using p0 p1 less.prems by (intro time_sleep_accepted) (simp_all add: w1)
    have eq: "get_result_loop srv rq True tmo p start w =
                get_result_loop srv rq True tmo p start w2"
      using cont st r1 unf False sl by simp
    have c2: "clock w2 = clock w + (p * ticks_per_second + latency (srv (length (net w)) rq))
                  + int (oversleep w (length (slept w)))"
      by (simp add: w2_def w1)
    have "clock w - start \<le> tmo * ticks_per_second"
      using False lat [of "length (net w)"] by (simp add: w1)
    with c2 adv [of "length (net w)"]
    have m: "nat (tmo * ticks_per_second + 1 - (clock w2 - start))
               < nat (tmo * ticks_per_second + 1 - (clock w - start))"
      by simp
    have l2: "p \<le> sleep_limit w2"
      using less.prems by (simp add: w2_def w1)
    have o2: "oversleep w2 = oversleep w"
      by (simp add: w2_def w1)
    have inv2: "clock w2 - start \<le> (tmo + p) * ticks_per_second + S"
      if "\<forall>n. int (oversleep w n) \<le> S"
    proof -
      have "clock w2 - start = (clock w1 - start) + p * ticks_per_second
              + int (oversleep w (length (slept w)))"
        by (simp add: w2_def w1)
      moreover from that have "int (oversleep w (length (slept w))) \<le> S"
        by blast
      moreover have "(tmo + p) * ticks_per_second = tmo * ticks_per_second + p * ticks_per_second"
        by (simp add: algebra_simps)
      ultimately show ?thesis
        using False by linarith
    qed
    from less.hyps [OF m l2] obtain w' where
      res: "get_result_loop srv rq True tmo p start w2 =
              Some (Inl (TimeoutError ''Result retrieval timed out''), w')"
      and bnd: "clock w2 - start \<le> (tmo + p) * ticks_per_second + S
                 \<and> (\<forall>n. latency (srv n rq) \<le> L) \<and> (\<forall>n. int (oversleep w2 n) \<le> S)
                \<longrightarrow> clock w' - start \<le> (tmo + p) * ticks_per_second + S + L"
      by blast
    from res eq bnd inv2 o2 show ?thesis
      by auto
  qed
qed

text \<open>
  Claim C1, as the code has it. Let \<open>time.sleep\<close> accept the polling interval (it is not
  negative, at most 9223372036 seconds and within the limit of the platform), let replies
  take no negative time and let a round of fetching and sleeping take at least a
  nanosecond. Then \<open>get_result\<close> returns, with a record that is terminal or was fetched with
  wait false, with the timeout error, or with the error of a fetch. If moreover wait is
  true, the time limit is non-negative, every reply is a non-terminal record that arrives
  within \<open>L\<close> nanoseconds, and no sleep lasts more than \<open>S\<close> nanoseconds longer than asked,
  then the call raises the timeout error no later than time limit plus interval plus \<open>S\<close>
  plus \<open>L\<close> after it was invoked.
\<close>

theorem get_result_terminates:
  assumes "0 \<le> polling_interval" and "polling_interval \<le> 9223372036"
    and "polling_interval \<le> sleep_limit w"
    and "\<forall>n. 0 \<le> latency (srv n (get_result_request c job_id))"
    and "\<forall>n. 1 \<le> polling_interval * ticks_per_second
                 + latency (srv n (get_result_request c job_id))"
  shows "\<exists>r w'. get_result srv c job_id wait tmo polling_interval w = Some (r, w')
           \<and> good_outcome wait r
           \<and> (wait \<and> 0 \<le> tmo
                \<and> (\<forall>n. non_terminal_reply (srv n (get_result_request c job_id))
                         \<and> latency (srv n (get_result_request c job_id)) \<le> L)
                \<and> (\<forall>n. int (oversleep w n) \<le> S)
               \<longrightarrow> r = Inl (TimeoutError ''Result retrieval timed out'')
                   \<and> clock w' - clock w
                       \<le> (tmo + polling_interval) * ticks_per_second + S + L)"
proof -
  let ?rq = "get_result_request c job_id"
  have lat: "\<And>n. 0 \<le> latency (srv n ?rq)"
    and adv: "\<And>n. 1 \<le> polling_interval * ticks_per_second + latency (srv n ?rq)"
    using assms(4,5) by simp_all
  from get_result_loop_total
         [of ?rq polling_interval srv w wait tmo "clock w", OF _ assms(1,2) lat adv assms(3)]
  obtain r w' where res: "get_result_loop srv ?rq wait tmo polling_interval (clock w) w = Some (r, w')"
    and good: "good_outcome wait r"
    by auto
  have "r = Inl (TimeoutError ''Result retrieval timed out'')
          \<and> clock w' - clock w \<le> (tmo + polling_interval) * ticks_per_second + S + L"
    if h: "wait \<and> 0 \<le> tmo
             \<and> (\<forall>n. non_terminal_reply (srv n ?rq) \<and> latency (srv n ?rq) \<le> L)
             \<and> (\<forall>n. int (oversleep w n) \<le> S)"
  proof -
    have nt: "\<And>n. non_terminal_reply (srv n ?rq)"
      using h by simp
    have S0: "0 \<le> S"
      using h by (meson of_nat_0_le_iff order_trans)
    have "0 \<le> (tmo + polling_interval) * ticks_per_second"
      using h assms(1) by (simp add: ticks_per_second_def)
    with S0 have start: "clock w - clock w \<le> (tmo + polling_interval) * ticks_per_second + S"
      by simp
    from get_result_loop_never_terminal
           [of ?rq polling_interval srv w tmo "clock w" S L, OF _ assms(1,2) lat adv nt assms(3)]
    obtain w'' where "get_result_loop srv ?rq True tmo polling_interval (clock w) w =
                 Some (Inl (TimeoutError ''Result retrieval timed out''), w'')"
      and "clock w - clock w \<le> (tmo + polling_interval) * ticks_per_second + S
                   \<and> (\<forall>n. latency (srv n ?rq) \<le> L) \<and> (\<forall>n. int (oversleep w n) \<le> S)
                  \<longrightarrow> clock w'' - clock w \<le> (tmo + polling_interval) * ticks_per_second + S + L"
      by auto
    with res h start show ?thesis
      by auto
  qed
  with res good show ?thesis
    by (auto simp: get_result_def)
qed

text \<open>A job that stays \<open>running\<close>, polled every 5 seconds for at most 10, with replies
  that take no time and exact sleeps: the timeout is raised within 15 seconds.\<close>

theorem get_result_terminates_witness:
  "(0::int) \<le> 5 \<and> (5::int) \<le> 9223372036 \<and> 5 \<le> sleep_limit empty_world
   \<and> (\<forall>n. 0 \<le> latency (running_server n (get_result_request local_minrue ''j1'')))
   \<and> (\<forall>n. 1 \<le> 5 * ticks_per_second
                + latency (running_server n (get_result_request local_minrue ''j1'')))
   \<and> (\<forall>n. non_terminal_reply (running_server n (get_result_request local_minrue ''j1'')))
   \<and> (\<forall>n. int (oversleep empty_world n) \<le> 0)
   \<and> (\<exists>w'. get_result running_server local_minrue ''j1'' True 10 5 empty_world =
              Some (Inl (TimeoutError ''Result retrieval timed out''), w')
           \<and> clock w' - clock empty_world \<le> (10 + 5) * ticks_per_second + 0 + 0)"
proof -
  have l: "5 \<le> sleep_limit empty_world" and o: "\<forall>n. int (oversleep empty_world n) \<le> 0"
    by (simp_all add: empty_world_def)
  have a0: "\<forall>n. 0 \<le> latency (running_server n (get_result_request local_minrue ''j1''))"
    by (simp add: running_server_def ok_reply_def)
  have a: "\<forall>n. 1 \<le> 5 * ticks_per_second
               + latency (running_server n (get_result_request local_minrue ''j1''))"
    by (simp add: running_server_def ok_reply_def ticks_per_second_def)
  have b: "\<forall>n. non_terminal_reply (running_server n (get_result_request local_minrue ''j1''))"
    by (simp add: running_server_def ok_reply_def non_terminal_reply_def raise_for_status_def
          is_terminal_def)
  have c: "\<forall>n. latency (running_server n (get_result_request local_minrue ''j1'')) \<le> 0"
    by (simp add: running_server_def ok_reply_def)
  from get_result_terminates
         [where polling_interval = 5 and srv = running_server and c = local_minrue
            and job_id = "''j1''" and wait = True and tmo = 10 and L = 0 and S = 0
            and w = empty_world]
       l o a0 a b c
  show ?thesis
    by auto
qed

text \<open>
  Claim C1 as stated fails in four ways. A 404 reply ends the call with \<open>HTTPError\<close>,
  which is none of the three outcomes. A polling interval of \<open>-1\<close> ends it with the
  \<open>ValueError\<close> of \<open>time.sleep\<close>, and one of \<open>10000000000\<close> with its \<open>OverflowError\<close>. And with a
  time limit of 10 and an interval of 5 seconds, a job that stays \<open>running\<close> behind replies
  that take 30 seconds times out 30 seconds after the start, later than 10 + 5.
\<close>

theorem get_result_counterexample:
  "map_option fst (get_result not_found_server local_minrue ''j1'' True 10 5 empty_world) =
     Some (Inl (HTTPError not_found_response))
   \<and> map_option fst (get_result running_server local_minrue ''j1'' True 10 (- 1) empty_world) =
     Some (Inl (ValueError ''sleep length must be non-negative''))
   \<and> map_option fst
       (get_result running_server local_minrue ''j1'' True 10 10000000000 empty_world) =
     Some (Inl (OverflowError ''timestamp too large to convert to C _PyTime_t''))
   \<and> map_option fst (get_result slow_server local_minrue ''j1'' True 10 5 empty_world) =
     Some (Inl (TimeoutError ''Result retrieval timed out''))
   \<and> map_option (clock \<circ> snd) (get_result slow_server local_minrue ''j1'' True 10 5 empty_world) =
     Some (clock empty_world + 30 * ticks_per_second)"
  unfolding get_result_def
    get_result_loop_unfold [OF surjective_pairing, where w = empty_world]
  by (simp add: call_json_def bind_io_def lift_io_def session_request_def Let_def
        get_result_request_def mk_request_def
        not_found_server_def not_found_response_def running_server_def slow_server_def
        ok_reply_def raise_for_status_def response_json_def time_sleep_def empty_world_def
        ticks_per_second_def)

text \<open>Why a round has to take time: with an interval of zero, exact sleeps and replies
  that take no time the state of the poll repeats, and the loop does not return.\<close>

lemma get_result_loop_frozen:
  assumes "get_result_loop srv rq wait tmo p start w = Some y"
  shows "\<not> frozen_poll srv rq wait tmo p start w"
proof (rule get_result_loop.raw_induct
         [where P = "\<lambda>srv rq wait tmo p start w y. \<not> frozen_poll srv rq wait tmo p start w",
          OF _ assms])
  fix loop :: "server \<Rightarrow> request \<Rightarrow> bool \<Rightarrow> int \<Rightarrow> int \<Rightarrow> int \<Rightarrow> world \<Rightarrow> ((error + json) \<times> world) option"
  fix srv rq wait tmo p start w y
  assume IH: "\<And>srv rq wait tmo p start w y.
                loop srv rq wait tmo p start w = Some y \<Longrightarrow> \<not> frozen_poll srv rq wait tmo p start w"
    and body: "(case call_json srv rq w of (Inl e, w1) \<Rightarrow> Some (Inl e, w1)
      | (Inr result, w1) \<Rightarrow>
          case subscript result ''status'' of Inl e \<Rightarrow> Some (Inl e, w1)
          | Inr st \<Rightarrow>
              if st = JStr ''completed'' \<or> st = JStr ''failed'' \<or> \<not> wait
              then Some (Inr result, w1)
              else if tmo * ticks_per_second < clock w1 - start
                   then Some (Inl (TimeoutError ''Result retrieval timed out''), w1)
                   else case time_sleep p w1 of
                        (Inl e, w2) \<Rightarrow> Some (Inl e, w2)
                        | (Inr u, w2) \<Rightarrow> loop srv rq wait tmo p start w2) = Some y"
  show "\<not> frozen_poll srv rq wait tmo p start w"
  proof
    assume a: "frozen_poll srv rq wait tmo p start w"
    define w2 where "w2 = w\<lparr>clock := clock w, net := net w @ [rq], slept := slept w @ [0]\<rparr>"
    from a body have "loop srv rq wait tmo p start w2 = Some y"
      by (simp add: call_json_def bind_io_def lift_io_def session_request_def Let_def frozen_poll_def
        running_server_def ok_reply_def raise_for_status_def response_json_def time_sleep_def w2_def)
    from IH [OF this] a show False
      by (simp add: w2_def frozen_poll_def)
  qed
qed

lemma get_result_frozen_clock:
  assumes "0 \<le> tmo" and "0 \<le> sleep_limit w" and "oversleep w = (\<lambda>n. 0)"
  shows "get_result running_server c job_id True tmo 0 w = None"
proof (cases "get_result running_server c job_id True tmo 0 w")
  case None
  then show ?thesis by simp
next
  case (Some y)
  then have "\<not> frozen_poll running_server (get_result_request c job_id) True tmo 0 (clock w) w"
    unfolding get_result_def by (rule get_result_loop_frozen)
  with assms show ?thesis
    by (simp add: frozen_poll_def ticks_per_second_def)
qed

section \<open>Uploads\<close>

lemma open_read_error_handles [simp]:
  "open_read_error (w\<lparr>handles := hs\<rparr>) = open_read_error w"
  by (rule ext) (simp add: open_read_error_def)

lemma missing_cannot_be_opened:
  "\<not> os_path_exists p w \<Longrightarrow> open_read_error w p \<noteq> None"
  by (cases "fs w p") (simp_all add: os_path_exists_def open_read_error_def)

text \<open>The opening loop stops at the first listed path that cannot be opened, with the
  exception of that \<open>open\<close>, and sends nothing.\<close>

lemma open_all_first_error:
  assumes "find (\<lambda>x. open_read_error w x \<noteq> None) file_paths = Some q"
    and "open_read_error w q = Some e"
  shows "\<exists>w'. open_all file_paths acc w = (Inl e, w') \<and> net w' = net w"
  using assms
proof (induction file_paths arbitrary: acc w)
  case Nil
  then show ?case by simp
next
  case (Cons x xs)
  show ?case
  proof (cases "open_read_error w x")
    case (Some e')
    with Cons.prems have "x = q" and "e' = e"
      by auto
    with Some show ?thesis
      by (simp add: py_open_def)
  next
    case None
    define w1 where "w1 = w\<lparr>handles := handles w @ [True]\<rparr>"
    from None Cons.prems
    have "find (\<lambda>x. open_read_error w1 x \<noteq> None) xs = Some q" and "open_read_error w1 q = Some e"
      by (simp_all add: w1_def)
    from Cons.IH [OF this, of "acc @ [(''file'', basename x, length (handles w))]"]
    show ?thesis
      using None by (auto simp: py_open_def w1_def)
  qed
qed

lemma file_not_found_open_error:
  assumes "open_read_error w q = Some e"
  shows "file_not_found e \<longleftrightarrow>
           fs w q = Inl NoEntry \<or> fs w q = Inl NoParent \<or> fs w q = Inl ReadOnlyParent"
proof (cases "fs w q")
  case (Inl g)
  with assms show ?thesis
    by (cases g) (auto simp: open_read_error_def)
next
  case (Inr n)
  with assms show ?thesis
    by (cases n) (auto simp: open_read_error_def)
qed

text \<open>
  Claim C6, as the code has it. \<open>process_file\<close> on a path that does not exist raises
  \<open>FileNotFoundError\<close> and leaves the world as it was, so no request is sent. When a path
  given to \<open>upload_documents\<close> does not exist, the call fails before any request is sent,
  with the exception that \<open>open\<close> raises for the first listed path that cannot be opened.
  That exception is \<open>FileNotFoundError\<close> exactly when nothing is found under the name of
  that path; it is another one when the path is a directory, lies below a regular file, is
  too long, is denied, or holds a null byte.
\<close>

theorem missing_file_fails_locally:
  "(\<not> os_path_exists file_path w \<longrightarrow>
      process_file rt srv c file_path model task parameters w =
        (Inl (FileNotFoundError (''File not found: '' @ file_path)), w))
   \<and> (p \<in> set file_paths \<and> \<not> os_path_exists p w \<longrightarrow>
        (\<exists>q e w'. find (\<lambda>x. open_read_error w x \<noteq> None) file_paths = Some q
           \<and> open_read_error w q = Some e
           \<and> upload_documents srv rc dataset_id file_paths w = (Inl e, w')
           \<and> net w' = net w
           \<and> (file_not_found e \<longleftrightarrow>
                 fs w q = Inl NoEntry \<or> fs w q = Inl NoParent \<or> fs w q = Inl ReadOnlyParent)))"
proof (intro conjI impI)
  assume "\<not> os_path_exists file_path w"
  then show "process_file rt srv c file_path model task parameters w =
        (Inl (FileNotFoundError (''File not found: '' @ file_path)), w)"
    by (simp add: process_file_def)
next
  assume a: "p \<in> set file_paths \<and> \<not> os_path_exists p w"
  then have "open_read_error w p \<noteq> None"
    by (simp add: missing_cannot_be_opened)
  with a have "find (\<lambda>x. open_read_error w x \<noteq> None) file_paths \<noteq> None"
    by (auto simp: find_None_iff)
  then obtain q where q: "find (\<lambda>x. open_read_error w x \<noteq> None) file_paths = Some q"
    by auto
  then have "open_read_error w q \<noteq> None"
    by (auto simp: find_Some_iff)
  then obtain e where e: "open_read_error w q = Some e"
    by auto
  from open_all_first_error [OF q e, of "[]"]
  obtain w' where "open_all file_paths [] w = (Inl e, w')" and "net w' = net w"
    by auto
  then have "upload_documents srv rc dataset_id file_paths w = (Inl e, w')"
    by (simp add: upload_documents_def bind_io_def)
  with q e \<open>net w' = net w\<close> file_not_found_open_error [OF e]
  show "\<exists>q e w'. find (\<lambda>x. open_read_error w x \<noteq> None) file_paths = Some q
           \<and> open_read_error w q = Some e
           \<and> upload_documents srv rc dataset_id file_paths w = (Inl e, w')
           \<and> net w' = net w
           \<and> (file_not_found e \<longleftrightarrow>
                 fs w q = Inl NoEntry \<or> fs w q = Inl NoParent \<or> fs w q = Inl ReadOnlyParent)"
    by blast
qed

text \<open>The path \<open>missing.txt\<close> in a file system that holds \<open>a.txt\<close> and \<open>docs\<close>.\<close>

theorem missing_file_fails_locally_witness:
  "\<not> os_path_exists ''missing.txt'' small_world
   \<and> process_file plain_runtime kb1_server local_minrue ''missing.txt'' ''m'' ''t'' None
        small_world =
       (Inl (FileNotFoundError ''File not found: missing.txt''), small_world)
   \<and> ''missing.txt'' \<in> set [''a.txt'', ''missing.txt'']
   \<and> fst (upload_documents kb1_server local_ragflow ''d1'' [''a.txt'', ''missing.txt'']
             small_world) = Inl (FileNotFoundError ''missing.txt'')
   \<and> net (snd (upload_documents kb1_server local_ragflow ''d1'' [''a.txt'', ''missing.txt'']
                  small_world)) = []"
proof -
  have m: "\<not> os_path_exists ''missing.txt'' small_world"
    by (simp add: os_path_exists_def small_world_def empty_world_def)
  have n: "net small_world = []"
    by (simp add: small_world_def empty_world_def)
  have f: "find (\<lambda>x. open_read_error small_world x \<noteq> None) [''a.txt'', ''missing.txt''] =
             Some ''missing.txt''"
    and o: "open_read_error small_world ''missing.txt'' = Some (FileNotFoundError ''missing.txt'')"
    by (simp_all add: open_read_error_def small_world_def empty_world_def)
  note inst = missing_file_fails_locally
         [where file_path = "''missing.txt''" and w = small_world and rt = plain_runtime
            and srv = kb1_server and c = local_minrue and model = "''m''" and task = "''t''"
            and parameters = None and p = "''missing.txt''"
            and file_paths = "[''a.txt'', ''missing.txt'']" and rc = local_ragflow
            and dataset_id = "''d1''"]
  from inst m
  have pf: "process_file plain_runtime kb1_server local_minrue ''missing.txt'' ''m'' ''t'' None
        small_world =
       (Inl (FileNotFoundError ''File not found: missing.txt''), small_world)"
    by simp
  have mem: "''missing.txt'' \<in> set [''a.txt'', ''missing.txt'']"
    by simp
  from inst m mem obtain q e w' where
    "find (\<lambda>x. open_read_error small_world x \<noteq> None) [''a.txt'', ''missing.txt''] = Some q"
    and "open_read_error small_world q = Some e"
    and "upload_documents kb1_server local_ragflow ''d1'' [''a.txt'', ''missing.txt'']
           small_world = (Inl e, w')"
    and "net w' = net small_world"
    by blast
  with f o n have "fst (upload_documents kb1_server local_ragflow ''d1'' [''a.txt'', ''missing.txt'']
             small_world) = Inl (FileNotFoundError ''missing.txt'')"
    and "net (snd (upload_documents kb1_server local_ragflow ''d1'' [''a.txt'', ''missing.txt'']
                  small_world)) = []"
    by simp_all
  with pf m show ?thesis
    by simp
qed

text \<open>
  Claim C6 as stated fails for \<open>upload_documents\<close>. With the directory \<open>docs\<close> listed
  before the missing path, the error is \<open>IsADirectoryError\<close>; and for the single path
  \<open>a.txt/x\<close>, which does not exist because \<open>a.txt\<close> is a regular file, it is
  \<open>NotADirectoryError\<close>.
\<close>

theorem upload_missing_counterexample:
  "\<not> os_path_exists ''missing.txt'' small_world
   \<and> fst (upload_documents kb1_server local_ragflow ''d1'' [''docs'', ''missing.txt'']
             small_world) = Inl (IsADirectoryError ''docs'')
   \<and> \<not> os_path_exists ''a.txt/x'' small_world
   \<and> fst (upload_documents kb1_server local_ragflow ''d1'' [''a.txt/x''] small_world) =
       Inl (NotADirectoryError ''a.txt/x'')"
  by (simp add: upload_documents_def bind_io_def py_open_def open_read_error_def
        os_path_exists_def small_world_def empty_world_def)

text \<open>
  Claim C4 at its failing inputs. \<open>process_file\<close> on the existing file \<open>a.txt\<close> closes
  the handle before the request: the call ends with \<open>ValueError\<close> for reading a closed file
  and nothing is sent. \<open>upload_documents\<close> on the same file leaves the handle open when
  the service answers 404 (\<open>HTTPError\<close> is raised before the closing loop), and also when
  it answers 200 (the closing loop raises \<open>AttributeError\<close>).
\<close>

theorem upload_handles_leak:
  "process_file plain_runtime kb1_server local_minrue ''a.txt'' ''m'' ''t'' None small_world =
     (Inl (ValueError ''read of closed file''), small_world\<lparr>handles := [False]\<rparr>)
   \<and> fst (upload_documents not_found_server local_ragflow ''d1'' [''a.txt''] small_world) =
       Inl (HTTPError not_found_response)
   \<and> handles (snd (upload_documents not_found_server local_ragflow ''d1'' [''a.txt'']
                      small_world)) = [True]
   \<and> fst (upload_documents kb1_server local_ragflow ''d1'' [''a.txt''] small_world) =
       Inl (AttributeError ([CHR 0x27] @ ''tuple'' @ [CHR 0x27] @ '' object has no attribute ''
                            @ [CHR 0x27] @ ''close'' @ [CHR 0x27]))
   \<and> handles (snd (upload_documents kb1_server local_ragflow ''d1'' [''a.txt''] small_world)) =
       [True]"
  by (simp add: process_file_def os_path_exists_def upload_documents_def bind_io_def lift_io_def
        py_open_def open_read_error_def py_close_def is_open_def session_request_def
        call_json_def Let_def
        raise_for_status_def response_json_def mk_request_def
        not_found_server_def not_found_response_def kb1_server_def ok_reply_def
        small_world_def empty_world_def)

text \<open>The same in terms of \<open>is_open\<close> for handle 0.\<close>

theorem upload_handles_leak_witness:
  "\<not> is_open (snd (process_file plain_runtime kb1_server local_minrue ''a.txt'' ''m'' ''t''
                      None small_world)) 0
   \<and> net (snd (process_file plain_runtime kb1_server local_minrue ''a.txt'' ''m'' ''t''
                  None small_world)) = []
   \<and> is_open (snd (upload_documents not_found_server local_ragflow ''d1'' [''a.txt'']
                      small_world)) 0
   \<and> is_open (snd (upload_documents kb1_server local_ragflow ''d1'' [''a.txt''] small_world)) 0"
  using upload_handles_leak
  by (simp add: is_open_def small_world_def empty_world_def)

section \<open>Exit codes and output\<close>







text \<open>
  Claim C8. Creating the dataset \<open>kb1\<close> against a service that answers
  \<open>{"data": {"id": "d1", "name": "kb1"}}\<close> exits with 0 and prints exactly one entry,
  \<open>Created dataset: kb1 (ID: d1)\<close>, which contains \<open>kb1\<close> and \<open>d1\<close> and no line break.
\<close>

theorem create_dataset_prints:
  "fst (ragflow_main rt kb1_server key b (DatasetCreate ''kb1'' embedding_model) w) = 0
   \<and> stdout (snd (ragflow_main rt kb1_server key b (DatasetCreate ''kb1'' embedding_model) w)) =
       stdout w @ [''Created dataset: kb1 (ID: d1)'']
   \<and> sublist ''kb1'' ''Created dataset: kb1 (ID: d1)''
   \<and> sublist ''d1'' ''Created dataset: kb1 (ID: d1)''
   \<and> CHR 0x0A \<notin> set ''Created dataset: kb1 (ID: d1)''"
proof -
  have "sublist ''kb1'' (''Created dataset: '' @ ''kb1'' @ '' (ID: d1)'')"
    by (rule sublist_appendI)
  moreover have "sublist ''d1'' (''Created dataset: kb1 (ID: '' @ ''d1'' @ '')'')"
    by (rule sublist_appendI)
  ultimately show ?thesis
    by (simp add: ragflow_main_def run_def create_dataset_def call_json_def bind_io_def
          lift_io_def return_io_def print_def session_request_def Let_def mk_request_def
          raise_for_status_def response_json_def kb1_server_def ok_reply_def py_str_def)
qed

text \<open>The same from an empty world, with the default embedding model.\<close>

theorem create_dataset_prints_witness:
  "stdout (snd (ragflow_main plain_runtime kb1_server ''key'' ''http://localhost:8000/v1''
                  (DatasetCreate ''kb1'' ''BAAI/bge-large-zh-v1.5@BAAI'') empty_world)) =
     [''Created dataset: kb1 (ID: d1)'']"
  using create_dataset_prints
          [of plain_runtime "''key''" "''http://localhost:8000/v1''"
              "''BAAI/bge-large-zh-v1.5@BAAI''" empty_world]
  by (simp add: empty_world_def)












lemma polling_fields [simp]:
  "net (polling job_id w) = net w" "fs (polling job_id w) = fs w"
  "written (polling job_id w) = written w" "write_fault (polling job_id w) = write_fault w"
  "sleep_limit (polling job_id w) = sleep_limit w"
  "stdout (polling job_id w) = stdout w @ [''Retrieving results for job ID: '' @ job_id]"
  by (simp_all add: polling_def says_def)

lemma fetched_fields [simp]:
  "fs (fetched srv job_id w) = fs w"
  "written (fetched srv job_id w) = written w" "write_fault (fetched srv job_id w) = write_fault w"
  "stdout (fetched srv job_id w) = stdout w @ [''Retrieving results for job ID: '' @ job_id]"
  "net (fetched srv job_id w) = net w @ [get_result_request cli_minrue job_id]"
  by (simp_all add: fetched_def sent_def)

lemma open_write_error_fetched [simp]:
  "open_write_error (fetched srv job_id w) p = open_write_error w p"
  by (simp add: open_write_error_def)














lemma subscript_error_line:
  "subscript v k = Inl e \<Longrightarrow> ragflow_error_line rt e = ''Unexpected error: '' @ describe rt e"
  by (cases v) (auto simp: ragflow_error_line_def split: option.splits)






















section \<open>The retry configuration\<close>

text \<open>Both sessions are configured alike: the given number of retries, backoff factor 1,
  the five retry-eligible status codes and seven methods. What a session does with the
  configuration is the transport library's part.\<close>

lemma retry_configuration:
  "retry (minrue_create_session retries) = retry (ragflow_create_session key retries)
   \<and> total (retry (minrue_create_session retries)) = retries
   \<and> backoff_factor (retry (minrue_create_session retries)) = 1
   \<and> set (status_forcelist (retry (minrue_create_session retries))) = {429, 500, 502, 503, 504}
   \<and> set (allowed_methods (retry (minrue_create_session retries))) =
       {''HEAD'', ''GET'', ''POST'', ''PUT'', ''DELETE'', ''OPTIONS'', ''TRACE''}"
  by (auto simp: minrue_create_session_def ragflow_create_session_def)

end
